theory Spec2Isabelle
  imports Complex_Main
begin

section \<open>Errors and library operations used by the metrics function\<close>

text \<open>
  The scripts raise Python exceptions; the model returns them as values. A
  \<open>ValueError\<close> carries its message. A finite floating-point number is modelled by
  the rational it denotes: comparisons of finite floats agree with comparisons of
  these rationals. Quotients are taken without rounding. Where a computation of the
  scripts can yield NaN or infinity, the result type is \<open>float64\<close>.
\<close>

datatype error = ValueError string | IndexError

datatype float64 = Finite rat | NaN | Infinity

text \<open>
  \<^verbatim>\<open>y_pred_prob\<close> is the array returned by \<^verbatim>\<open>model.predict\<close>. Every architecture of
  \<^verbatim>\<open>get_model\<close> ends in \<^verbatim>\<open>Dense(2, activation="softmax")\<close>, so the array has one
  row of two probabilities per sample: a list of pairs. \<^verbatim>\<open>y_pred_prob[:, 1]\<close> is the
  column of second components.
\<close>

type_synonym prob_matrix = "(rat \<times> rat) list"

definition column_1 :: "prob_matrix \<Rightarrow> rat list" where
  "column_1 y_pred_prob = map snd y_pred_prob"

text \<open>
  The array that Keras returns holds single-precision numbers, and the threshold is a
  Python float. numpy compares the two in the array's precision: the threshold is
  first rounded to the nearest single-precision number, a tie going to the even
  significand. \<open>float32\<close> is that rounding: 24 significant bits, binades from
  \<^verbatim>\<open>2^-126\<close> up, a fixed spacing of \<^verbatim>\<open>2^-149\<close> below. A result of magnitude
  \<^verbatim>\<open>2^128\<close> or more stands for an infinity: it compares with every
  single-precision number as the infinity does.
\<close>

definition float32_exponent :: "rat \<Rightarrow> int" where
  "float32_exponent a =
     (case filter (\<lambda>e. 2 powi e \<le> a) [-126..127] of [] \<Rightarrow> -126 | es \<Rightarrow> last es)"

definition round_half_even :: "rat \<Rightarrow> int" where
  "round_half_even n =
     (let f = \<lfloor>n\<rfloor>; d = n - of_int f
      in if d < 1 / 2 then f else if 1 / 2 < d then f + 1 else if even f then f else f + 1)"

definition float32 :: "rat \<Rightarrow> rat" where
  "float32 x =
     (let ulp = 2 powi (float32_exponent \<bar>x\<bar> - 23)
      in of_int (round_half_even (x / ulp)) * ulp)"

text \<open>\<^verbatim>\<open>a > threshold\<close> on a single-precision array: the elementwise comparison.\<close>

definition greater :: "rat list \<Rightarrow> rat \<Rightarrow> bool list" where
  "greater a threshold = map (\<lambda>x. float32 threshold < x) a"

text \<open>\<^verbatim>\<open>.astype(int)\<close> on a boolean array: \<^verbatim>\<open>True\<close> becomes 1 and \<^verbatim>\<open>False\<close> 0.\<close>

definition astype_int :: "bool list \<Rightarrow> int list" where
  "astype_int bs = map (\<lambda>b. if b then 1 else 0) bs"

text \<open>
  \<^verbatim>\<open>sklearn.metrics.confusion_matrix(y_true, y_pred)\<close> without a \<^verbatim>\<open>labels\<close> argument:
  the labels are the sorted distinct values that occur in either argument, and the
  cell in row \<open>i\<close>, column \<open>j\<close> counts the samples whose true label is the \<open>i\<close>-th
  label and whose predicted label is the \<open>j\<close>-th. The matrix is square with as many
  rows as there are labels: it is 2x2 only when exactly two labels occur. Arguments
  of different lengths are rejected.
\<close>

definition unique_labels :: "int list \<Rightarrow> int list \<Rightarrow> int list" where
  "unique_labels y_true y_pred = sort (remdups (y_true @ y_pred))"

definition confusion_matrix :: "int list \<Rightarrow> int list \<Rightarrow> error + nat list list" where
  "confusion_matrix y_true y_pred =
     (if length y_true \<noteq> length y_pred
      then Inl (ValueError ''Found input variables with inconsistent numbers of samples'')
      else
        let labels = unique_labels y_true y_pred in
        Inr (map (\<lambda>t. map (\<lambda>p. count_list (zip y_true y_pred) (t, p)) labels) labels))"

text \<open>\<^verbatim>\<open>cm.ravel()\<close>: the cells in row-major order.\<close>

definition ravel :: "nat list list \<Rightarrow> nat list" where
  "ravel cm = concat cm"

text \<open>
  \<^verbatim>\<open>sklearn.metrics.accuracy_score(y_true, y_pred)\<close>: the fraction of positions at
  which the two arguments agree. (On empty arguments numpy yields NaN; the metrics
  function never reaches the call with empty arguments, see
  \<open>calculate_metrics_empty\<close> below.)
\<close>

definition accuracy_score :: "int list \<Rightarrow> int list \<Rightarrow> error + rat" where
  "accuracy_score y_true y_pred =
     (if length y_true \<noteq> length y_pred
      then Inl (ValueError ''Found input variables with inconsistent numbers of samples'')
      else Inr (of_nat (length (filter (\<lambda>(t, p). t = p) (zip y_true y_pred)))
                / of_nat (length y_true)))"

text \<open>
  \<^verbatim>\<open>sklearn.metrics.roc_auc_score(y_true, y_score)\<close> for a one-dimensional score:
  with exactly two distinct true labels the greater one is the positive class and
  the result is the area under the ROC curve, which is the fraction of
  (positive, negative) pairs that the score ranks correctly, a tie counting one
  half. With fewer than two distinct true labels the score is undefined: current
  scikit-learn warns and returns NaN (releases up to 1.5 raised \<^verbatim>\<open>ValueError\<close>
  instead; the scripts install scikit-learn unpinned). With more than two the call
  raises, a one-dimensional score being no multiclass score.
\<close>

definition ranked_pairs :: "(int \<times> rat) list \<Rightarrow> int \<Rightarrow> int \<Rightarrow> rat" where
  "ranked_pairs ys neg pos =
     (\<Sum>(a, s) \<leftarrow> ys. \<Sum>(b, r) \<leftarrow> ys.
        if a = pos \<and> b = neg then (if r < s then 1 else if r = s then 1 / 2 else 0) else 0)"

definition roc_auc_score :: "int list \<Rightarrow> rat list \<Rightarrow> error + float64" where
  "roc_auc_score y_true y_score =
     (case sort (remdups y_true) of
        [] \<Rightarrow> Inr NaN
      | [c] \<Rightarrow> Inr NaN
      | [neg, pos] \<Rightarrow>
          if length y_true \<noteq> length y_score
          then Inl (ValueError ''Found input variables with inconsistent numbers of samples'')
          else Inr (Finite (ranked_pairs (zip y_true y_score) neg pos
                            / of_nat (count_list y_true pos * count_list y_true neg)))
      | _ \<Rightarrow> Inl (ValueError ''multiclass format is not supported''))"

section \<open>The metrics function\<close>

text \<open>
  \<^verbatim>\<open>calculate_metrics(y_true, y_pred_prob, threshold=0.5)\<close> of the cross-validation
  scripts. The tuple assignment \<^verbatim>\<open>tn, fp, fn, tp = cm.ravel()\<close> raises \<^verbatim>\<open>ValueError\<close>
  unless the matrix has exactly four cells; with fewer the message tells how many
  there were.
\<close>

definition unpack_error :: "nat \<Rightarrow> error" where
  "unpack_error n =
     (if n < 4
      then ValueError (''not enough values to unpack (expected 4, got '' @ [''0123'' ! n] @ '')'')
      else ValueError ''too many values to unpack (expected 4)'')"

definition calculate_metrics ::
  "int list \<Rightarrow> prob_matrix \<Rightarrow> rat \<Rightarrow> error + (rat \<times> rat \<times> rat \<times> float64)" where
  "calculate_metrics y_true y_pred_prob threshold =
     (let y_pred = astype_int (greater (column_1 y_pred_prob) threshold) in
      case confusion_matrix y_true y_pred of
        Inl e \<Rightarrow> Inl e
      | Inr cm \<Rightarrow>
         (case ravel cm of
            [tn, fp, fn, tp] \<Rightarrow>
              (case accuracy_score y_true y_pred of
                 Inl e \<Rightarrow> Inl e
               | Inr accuracy \<Rightarrow>
                   let sensitivity = (if tp + fn > 0 then of_nat tp / of_nat (tp + fn) else 0);
                       specificity = (if tn + fp > 0 then of_nat tn / of_nat (tn + fp) else 0)
                   in (case roc_auc_score y_true (column_1 y_pred_prob) of
                         Inl e \<Rightarrow> Inl e
                       | Inr roc_auc \<Rightarrow> Inr (accuracy, sensitivity, specificity, roc_auc)))
          | cells \<Rightarrow> Inl (unpack_error (length cells))))"

text \<open>The call \<^verbatim>\<open>calculate_metrics(y_test, y_pred_prob)\<close> takes the default threshold.\<close>

definition calculate_metrics_default ::
  "int list \<Rightarrow> prob_matrix \<Rightarrow> error + (rat \<times> rat \<times> rat \<times> float64)" where
  "calculate_metrics_default y_true y_pred_prob = calculate_metrics y_true y_pred_prob (1 / 2)"

text \<open>
  \<^verbatim>\<open>calculate_metrics(y_true, y_pred)\<close> of the single-split scripts takes predicted
  labels and divides without a guard. The operands are numpy integers, so a zero
  denominator does not raise: the quotient is NaN (0/0) or infinite, with a warning.
\<close>

definition true_divide :: "nat \<Rightarrow> nat \<Rightarrow> float64" where
  "true_divide a b =
     (if b = 0 then (if a = 0 then NaN else Infinity) else Finite (of_nat a / of_nat b))"

definition calculate_metrics_labels ::
  "int list \<Rightarrow> int list \<Rightarrow> error + (float64 \<times> float64 \<times> float64)" where
  "calculate_metrics_labels y_true y_pred =
     (case confusion_matrix y_true y_pred of
        Inl e \<Rightarrow> Inl e
      | Inr cm \<Rightarrow>
         (case ravel cm of
            [tn, fp, fn, tp] \<Rightarrow>
              let accuracy = true_divide (tp + tn) (tp + tn + fp + fn);
                  sensitivity = true_divide tp (tp + fn);
                  specificity = true_divide tn (tn + fp)
              in Inr (accuracy, sensitivity, specificity)
          | cells \<Rightarrow> Inl (unpack_error (length cells))))"

text \<open>
  The confusion-matrix cell of a true label \<open>t\<close> and a predicted label \<open>p\<close>, as
  the claims name it: the number of samples with that pair of labels.
\<close>

definition cell :: "int list \<Rightarrow> int list \<Rightarrow> int \<Rightarrow> int \<Rightarrow> nat" where
  "cell y_true y_pred t p =
     length (filter (\<lambda>(a, b). a = t \<and> b = p) (zip y_true y_pred))"

text \<open>
  The predicted labels that a threshold on the positive-class probability gives, the
  threshold taken in single precision.
\<close>

definition threshold_labels :: "prob_matrix \<Rightarrow> rat \<Rightarrow> int list" where
  "threshold_labels y_pred_prob threshold =
     map (\<lambda>q. if float32 threshold < snd q then 1 else 0) y_pred_prob"

text \<open>The numbers that single precision represents: those that rounding leaves as they are.\<close>

definition is_float32 :: "rat \<Rightarrow> bool" where
  "is_float32 x \<longleftrightarrow> float32 x = x \<and> \<bar>x\<bar> < 2 ^ 128"

text \<open>
  The number of samples, given as pairs of a true label and a row of probabilities,
  that satisfy a condition on the two.
\<close>

definition count_samples ::
  "int list \<Rightarrow> prob_matrix \<Rightarrow> (int \<Rightarrow> rat \<times> rat \<Rightarrow> bool) \<Rightarrow> nat" where
  "count_samples y_true y_pred_prob cond =
     length (filter (\<lambda>(y, q). cond y q) (zip y_true y_pred_prob))"

section \<open>The cross-validation harness\<close>

text \<open>
  \<^verbatim>\<open>images[train_idx]\<close>: numpy indexing of an array by an array of indices. An index
  beyond the end raises \<^verbatim>\<open>IndexError\<close>.
\<close>

definition np_index :: "'a list \<Rightarrow> nat list \<Rightarrow> error + 'a list" where
  "np_index a idx =
     (if list_all (\<lambda>i. i < length a) idx then Inr (map (\<lambda>i. a ! i) idx) else Inl IndexError)"

text \<open>
  \<^verbatim>\<open>StratifiedKFold(n_splits=k, shuffle=True, random_state=42)\<close>: the constructor
  rejects fewer than two splits.
\<close>

record StratifiedKFold =
  n_splits :: int
  shuffle :: bool
  random_state :: int

definition StratifiedKFold_init :: "int \<Rightarrow> bool \<Rightarrow> int \<Rightarrow> error + StratifiedKFold" where
  "StratifiedKFold_init k sh seed =
     (if k \<le> 1
      then Inl (ValueError ''k-fold cross-validation requires at least one train/test split'')
      else Inr \<lparr>n_splits = k, shuffle = sh, random_state = seed\<rparr>)"

text \<open>
  A model object: its architecture, the input shape it was built for, the number of
  the instance (counting the models built so far) and its current weights.
\<close>

datatype architecture = ResNet | AlexNet | ZFNet | Bionnica | BFNet

type_synonym shape = "nat \<times> nat \<times> nat"

record 'w model =
  model_architecture :: architecture
  model_input_shape :: shape
  model_instance :: nat
  model_weights :: 'w

text \<open>
  What the harness takes from its libraries. With an integer \<^verbatim>\<open>random_state\<close> every
  call of \<^verbatim>\<open>skf.split\<close> starts from a generator seeded anew, so
  \<^verbatim>\<open>skf.split(images, labels)\<close> is a function of the splitter object and of its
  arguments. It yields the folds as pairs of index arrays, or raises. Keras and the
  training framework are opaque: the weights a newly built network starts from (which
  may differ from one instance to the next), what training makes of a model, and what
  a model predicts. Training and prediction may raise, as they do on images that do
  not have the shape the model was built for.
\<close>

record ('x, 'w) library =
  skf_split :: "StratifiedKFold \<Rightarrow> 'x list \<Rightarrow> int list \<Rightarrow> error + (nat list \<times> nat list) list"
  initial_weights :: "nat \<Rightarrow> architecture \<Rightarrow> shape \<Rightarrow> 'w"
  trainer_fit :: "'w model \<Rightarrow> 'x list \<times> int list \<Rightarrow> 'x list \<times> int list \<Rightarrow> error + 'w"
  model_predict :: "'w model \<Rightarrow> 'x list \<Rightarrow> error + prob_matrix"

text \<open>
  The state the harness runs in: how many model instances have been built so far, and
  the calls made to the trainer, in order. Each call is recorded with the model name
  and fold it was made for, the instance it was made on, the weights that instance
  had when the call was made, and the fold's index arrays.
\<close>

record 'w fit_call =
  call_model :: string
  call_fold :: nat
  call_instance :: nat
  call_weights :: 'w
  call_train :: "nat list"
  call_test :: "nat list"

record 'w state =
  instances :: nat
  fit_calls :: "'w fit_call list"

text \<open>
  \<^verbatim>\<open>get_model(model_name, input_shape)\<close> builds and compiles a new network of the named
  architecture, or raises \<^verbatim>\<open>ValueError("Unsupported model name.")\<close>. The ResNet is
  built for 224x224x3 images whatever \<^verbatim>\<open>input_shape\<close> is.
\<close>

definition build ::
  "('x, 'w) library \<Rightarrow> architecture \<Rightarrow> shape \<Rightarrow> 'w state \<Rightarrow> (error + 'w model) \<times> 'w state" where
  "build lib arch input_shape st =
     (Inr \<lparr>model_architecture = arch, model_input_shape = input_shape,
           model_instance = instances st,
           model_weights = initial_weights lib (instances st) arch input_shape\<rparr>,
      st\<lparr>instances := Suc (instances st)\<rparr>)"

definition get_model ::
  "('x, 'w) library \<Rightarrow> string \<Rightarrow> shape \<Rightarrow> 'w state \<Rightarrow> (error + 'w model) \<times> 'w state" where
  "get_model lib model_name input_shape st =
     (if model_name = ''resnet'' then build lib ResNet (224, 224, 3) st
      else if model_name = ''alexnet'' then build lib AlexNet input_shape st
      else if model_name = ''zfnet'' then build lib ZFNet input_shape st
      else if model_name = ''bionnica'' then build lib Bionnica input_shape st
      else if model_name = ''bfnet'' then build lib BFNet input_shape st
      else (Inl (ValueError ''Unsupported model name.''), st))"

text \<open>
  \<^verbatim>\<open>pd.DataFrame(fold_results).mean()\<close> on a list of dictionaries: the columns are the
  keys in order of first appearance, and the mean of a column skips the cells that
  are missing or NaN: it is the sum of the other values divided by their number, and
  NaN when there are none. \<^verbatim>\<open>to_dict()\<close> gives the means by column name.
\<close>

type_synonym row = "(string \<times> float64) list"

fun DataFrame_columns :: "row list \<Rightarrow> string list \<Rightarrow> string list" where
  "DataFrame_columns [] cols = cols"
| "DataFrame_columns (r # rs) cols =
     DataFrame_columns rs (cols @ filter (\<lambda>c. c \<notin> set cols) (remdups (map fst r)))"

definition column_values :: "row list \<Rightarrow> string \<Rightarrow> float64 list" where
  "column_values rows c = concat (map (\<lambda>r. case map_of r c of None \<Rightarrow> [] | Some v \<Rightarrow> [v]) rows)"

definition finite_values :: "float64 list \<Rightarrow> rat list" where
  "finite_values vs = concat (map (\<lambda>v. case v of Finite x \<Rightarrow> [x] | _ \<Rightarrow> []) vs)"

definition Series_mean :: "float64 list \<Rightarrow> float64" where
  "Series_mean vs =
     (if Infinity \<in> set vs then Infinity
      else case finite_values vs of
             [] \<Rightarrow> NaN
           | xs \<Rightarrow> Finite (sum_list xs / of_nat (length xs)))"

definition DataFrame_mean :: "row list \<Rightarrow> row" where
  "DataFrame_mean rows =
     map (\<lambda>c. (c, Series_mean (column_values rows c))) (DataFrame_columns rows [])"

text \<open>
  The body of the loop over folds, for the fold numbered \<open>fold_no\<close> (from 0) with
  index arrays \<open>train_idx\<close> and \<open>test_idx\<close>: slice the data, build the model, train
  it, predict on the test slice, compute the metrics and make the fold's record.
\<close>

definition fold_body ::
  "('x, 'w) library \<Rightarrow> 'x list \<Rightarrow> int list \<Rightarrow> string \<Rightarrow> nat \<Rightarrow> nat list \<Rightarrow> nat list
   \<Rightarrow> 'w state \<Rightarrow> (error + row) \<times> 'w state" where
  "fold_body lib images labels model_name fold_no train_idx test_idx st =
     (case np_index images train_idx of Inl e \<Rightarrow> (Inl e, st) | Inr x_train \<Rightarrow>
      case np_index images test_idx of Inl e \<Rightarrow> (Inl e, st) | Inr x_test \<Rightarrow>
      case np_index labels train_idx of Inl e \<Rightarrow> (Inl e, st) | Inr y_train \<Rightarrow>
      case np_index labels test_idx of Inl e \<Rightarrow> (Inl e, st) | Inr y_test \<Rightarrow>
      case get_model lib model_name (64, 64, 3) st of
        (Inl e, st1) \<Rightarrow> (Inl e, st1)
      | (Inr model, st1) \<Rightarrow>
        let st2 = st1\<lparr>fit_calls := fit_calls st1 @
                     [\<lparr>call_model = model_name, call_fold = fold_no + 1,
                       call_instance = model_instance model,
                       call_weights = model_weights model,
                       call_train = train_idx, call_test = test_idx\<rparr>]\<rparr>
        in case trainer_fit lib model (x_train, y_train) (x_test, y_test) of
             Inl e \<Rightarrow> (Inl e, st2)
           | Inr w \<Rightarrow>
              (case model_predict lib (model\<lparr>model_weights := w\<rparr>) x_test of
                 Inl e \<Rightarrow> (Inl e, st2)
               | Inr y_pred_prob \<Rightarrow>
                  (case calculate_metrics_default y_test y_pred_prob of
                     Inl e \<Rightarrow> (Inl e, st2)
                   | Inr (accuracy, sensitivity, specificity, roc_auc) \<Rightarrow>
                       (Inr [(''fold'', Finite (of_nat (fold_no + 1))),
                             (''accuracy'', Finite accuracy),
                             (''sensitivity'', Finite sensitivity),
                             (''specificity'', Finite specificity),
                             (''roc_auc'', roc_auc)], st2))))"

text \<open>The loop over \<^verbatim>\<open>enumerate(skf.split(images, labels))\<close>, appending to \<^verbatim>\<open>fold_results\<close>.\<close>

fun fold_loop ::
  "('x, 'w) library \<Rightarrow> 'x list \<Rightarrow> int list \<Rightarrow> string \<Rightarrow> (nat \<times> nat list \<times> nat list) list
   \<Rightarrow> row list \<Rightarrow> 'w state \<Rightarrow> (error + row list) \<times> 'w state" where
  "fold_loop lib images labels model_name [] fold_results st = (Inr fold_results, st)"
| "fold_loop lib images labels model_name ((fold_no, train_idx, test_idx) # rest) fold_results st =
     (case fold_body lib images labels model_name fold_no train_idx test_idx st of
        (Inl e, st') \<Rightarrow> (Inl e, st')
      | (Inr r, st') \<Rightarrow>
          fold_loop lib images labels model_name rest (fold_results @ [r]) st')"

text \<open>
  The loop over the model names. The splitter is called anew for each model. A result
  row is the model's name with the column means of its fold records.
\<close>

fun model_loop ::
  "('x, 'w) library \<Rightarrow> StratifiedKFold \<Rightarrow> 'x list \<Rightarrow> int list \<Rightarrow> string list
   \<Rightarrow> (string \<times> row) list \<Rightarrow> 'w state \<Rightarrow> (error + (string \<times> row) list) \<times> 'w state" where
  "model_loop lib skf images labels [] results st = (Inr results, st)"
| "model_loop lib skf images labels (model_name # rest) results st =
     (case skf_split lib skf images labels of
        Inl e \<Rightarrow> (Inl e, st)
      | Inr folds \<Rightarrow>
         (case fold_loop lib images labels model_name (enumerate 0 folds) [] st of
            (Inl e, st') \<Rightarrow> (Inl e, st')
          | (Inr fold_results, st') \<Rightarrow>
              model_loop lib skf images labels rest
                (results @ [(model_name, DataFrame_mean fold_results)]) st'))"

definition federated_kfold_cross_validation ::
  "('x, 'w) library \<Rightarrow> 'x list \<Rightarrow> int list \<Rightarrow> string list \<Rightarrow> int
   \<Rightarrow> 'w state \<Rightarrow> (error + (string \<times> row) list) \<times> 'w state" where
  "federated_kfold_cross_validation lib images labels models k st =
     (case StratifiedKFold_init k True 42 of
        Inl e \<Rightarrow> (Inl e, st)
      | Inr skf \<Rightarrow> model_loop lib skf images labels models [] st)"

text \<open>
  A small library to run the harness on: six samples, a splitter that cuts them into
  two folds of three, weights that count training calls, and a predictor that is sure
  of the even-numbered samples being positive.
\<close>

definition demo_library :: "(nat, nat) library" where
  "demo_library =
     \<lparr>skf_split = (\<lambda>skf images labels.
          if n_splits skf = 2 \<and> length images = 6
          then Inr [([3, 4, 5], [0, 1, 2]), ([0, 1, 2], [3, 4, 5])]
          else Inl (ValueError ''n_splits'')),
      initial_weights = (\<lambda>i arch input_shape. 0),
      trainer_fit = (\<lambda>model train test. Inr (Suc (model_weights model))),
      model_predict = (\<lambda>model xs.
          Inr (map (\<lambda>x. if even x then (1 / 10, 9 / 10) else (4 / 5, 1 / 5)) xs))\<rparr>"

definition demo_images :: "nat list" where
  "demo_images = [0, 1, 2, 3, 4, 5]"

definition demo_labels :: "int list" where
  "demo_labels = [1, 0, 0, 0, 1, 1]"

text \<open>Labels with a single positive sample: the second test fold has none.\<close>

definition scarce_labels :: "int list" where
  "scarce_labels = [1, 0, 0, 0, 0, 0]"

definition initial_state :: "nat state" where
  "initial_state = \<lparr>instances = 0, fit_calls = []\<rparr>"

section \<open>Reference definitions for the harness\<close>

text \<open>
  The claims speak of the closed set of supported names, of a fresh model instance,
  of the metrics record of one (model, fold) pair and of arithmetic means. These
  definitions say what each means, for comparison with the loops above; none of them
  threads a state.
\<close>

definition supported_models :: "string list" where
  "supported_models = [''resnet'', ''alexnet'', ''zfnet'', ''bionnica'', ''bfnet'']"

text \<open>The model that the factory returns for instance number \<open>inst\<close>.\<close>

definition fresh_model :: "('x, 'w) library \<Rightarrow> string \<Rightarrow> nat \<Rightarrow> error + 'w model" where
  "fresh_model lib model_name inst =
     fst (get_model lib model_name (64, 64, 3) \<lparr>instances = inst, fit_calls = []\<rparr>)"

text \<open>
  One (model, fold) evaluation as a function of the model name, the instance number
  and the fold alone: train a fresh model on the train slice, predict on the test
  slice, compute the metrics.
\<close>

definition evaluate_fold ::
  "('x, 'w) library \<Rightarrow> 'x list \<Rightarrow> int list \<Rightarrow> string \<Rightarrow> nat \<Rightarrow> nat list \<times> nat list
   \<Rightarrow> error + (rat \<times> rat \<times> rat \<times> float64)" where
  "evaluate_fold lib images labels model_name inst fold_idx =
     (case np_index images (fst fold_idx) of Inl e \<Rightarrow> Inl e | Inr x_train \<Rightarrow>
      case np_index images (snd fold_idx) of Inl e \<Rightarrow> Inl e | Inr x_test \<Rightarrow>
      case np_index labels (fst fold_idx) of Inl e \<Rightarrow> Inl e | Inr y_train \<Rightarrow>
      case np_index labels (snd fold_idx) of Inl e \<Rightarrow> Inl e | Inr y_test \<Rightarrow>
      case fresh_model lib model_name inst of Inl e \<Rightarrow> Inl e | Inr model \<Rightarrow>
      case trainer_fit lib model (x_train, y_train) (x_test, y_test) of
        Inl e \<Rightarrow> Inl e
      | Inr w \<Rightarrow>
         (case model_predict lib (model\<lparr>model_weights := w\<rparr>) x_test of
            Inl e \<Rightarrow> Inl e
          | Inr y_pred_prob \<Rightarrow> calculate_metrics_default y_test y_pred_prob))"

text \<open>The record of a fold, and the trainer call made for it.\<close>

definition fold_record :: "nat \<Rightarrow> rat \<times> rat \<times> rat \<times> float64 \<Rightarrow> row" where
  "fold_record fold_no m =
     (case m of (accuracy, sensitivity, specificity, roc_auc) \<Rightarrow>
        [(''fold'', Finite (of_nat (fold_no + 1))), (''accuracy'', Finite accuracy),
         (''sensitivity'', Finite sensitivity), (''specificity'', Finite specificity),
         (''roc_auc'', roc_auc)])"

definition fold_call :: "string \<Rightarrow> nat \<Rightarrow> 'w model \<Rightarrow> nat list \<times> nat list \<Rightarrow> 'w fit_call" where
  "fold_call model_name fold_no model fold_idx =
     \<lparr>call_model = model_name, call_fold = fold_no + 1,
      call_instance = model_instance model, call_weights = model_weights model,
      call_train = fst fold_idx, call_test = snd fold_idx\<rparr>"

text \<open>The four metrics of a record, by position.\<close>

definition accuracy_of :: "rat \<times> rat \<times> rat \<times> float64 \<Rightarrow> rat" where
  "accuracy_of m = fst m"

definition sensitivity_of :: "rat \<times> rat \<times> rat \<times> float64 \<Rightarrow> rat" where
  "sensitivity_of m = fst (snd m)"

definition specificity_of :: "rat \<times> rat \<times> rat \<times> float64 \<Rightarrow> rat" where
  "specificity_of m = fst (snd (snd m))"

definition roc_auc_of :: "rat \<times> rat \<times> rat \<times> float64 \<Rightarrow> float64" where
  "roc_auc_of m = snd (snd (snd m))"

text \<open>
  The arithmetic mean of rationals, and of floating-point values, where a NaN among
  the values makes the mean NaN.
\<close>

definition mean :: "rat list \<Rightarrow> rat" where
  "mean xs = sum_list xs / of_nat (length xs)"

definition arithmetic_mean :: "float64 list \<Rightarrow> float64" where
  "arithmetic_mean vs =
     (if vs = [] \<or> NaN \<in> set vs then NaN
      else if Infinity \<in> set vs then Infinity
      else Finite (mean (finite_values vs)))"

text \<open>The mean of the values that are defined: NaN when there are none.\<close>

definition defined_mean :: "float64 list \<Rightarrow> float64" where
  "defined_mean vs =
     (if finite_values vs = [] then NaN else Finite (mean (finite_values vs)))"

text \<open>The metrics that the small library yields, by model number and fold number.\<close>

definition demo_metrics :: "nat \<Rightarrow> nat \<Rightarrow> rat \<times> rat \<times> rat \<times> float64" where
  "demo_metrics j i =
     (if i = 0 then (2 / 3, 1, 1 / 2, Finite (3 / 4)) else (2 / 3, 1 / 2, 1, Finite (3 / 4)))"

definition demo_folds :: "(nat list \<times> nat list) list" where
  "demo_folds = [([3, 4, 5], [0, 1, 2]), ([0, 1, 2], [3, 4, 5])]"

section \<open>Properties of the metrics function\<close>

text \<open>The binade of a number in the normal range.\<close>

lemma float32_exponent_binade:
  assumes lo: "2 powi e \<le> a" and hi: "a < 2 powi (e + 1)" and r: "-126 \<le> e" "e \<le> 127"
  shows "float32_exponent a = e"
proof -
  have below: "2 powi x \<le> a" if "x \<le> e" for x :: int
  proof -
    have "(2::rat) powi x \<le> 2 powi e" using that by (intro power_int_increasing) simp_all
    then show ?thesis using lo by simp
  qed
  have above: "\<not> 2 powi x \<le> a" if "e < x" for x :: int
  proof -
    have "(2::rat) powi (e + 1) \<le> 2 powi x" using that by (intro power_int_increasing) simp_all
    then show ?thesis using hi by simp
  qed
  have split: "[-126..127] = [-126..e] @ [e + 1..127]"
    using r by (intro upto_split2) simp_all
  have "filter (\<lambda>x. 2 powi x \<le> a) [-126..e] = [-126..e]"
    using below by (intro filter_True) simp
  moreover have "filter (\<lambda>x. 2 powi x \<le> a) [e + 1..127] = []"
    using above by (intro filter_False) simp
  moreover have "[-126..e] = [-126..e - 1] @ [e]" using r by (intro upto_rec2) simp
  ultimately have f: "filter (\<lambda>x. 2 powi x \<le> a) [-126..127] = [-126..e - 1] @ [e]"
    unfolding split filter_append by (simp only: append_Nil2)
  have c: "(case xs @ [e] of [] \<Rightarrow> d | es \<Rightarrow> last es) = e" for xs :: "int list" and d
    by (cases xs) simp_all
  show ?thesis
    unfolding float32_exponent_def f by (rule c)
qed

text \<open>The default threshold is a single-precision number.\<close>

lemma float32_half: "float32 (1 / 2) = 1 / 2"
proof -
  have "float32_exponent \<bar>1 / 2\<bar> = -1"
    by (rule float32_exponent_binade) (simp_all add: power_int_minus)
  then show ?thesis
    by (simp add: float32_def round_half_even_def Let_def power_int_minus)
qed

text \<open>What evaluating the metrics function on given lists unfolds.\<close>

lemmas metrics_eval =
  calculate_metrics_default_def calculate_metrics_def column_1_def greater_def astype_int_def
  float32_half confusion_matrix_def unique_labels_def ravel_def accuracy_score_def
  roc_auc_score_def ranked_pairs_def unpack_error_def

lemma y_pred_eq:
  "astype_int (greater (column_1 p) t) = threshold_labels p t"
  by (simp add: astype_int_def greater_def column_1_def threshold_labels_def)

lemma sort_remdups_binary:
  assumes "set xs = {0, 1::int}"
  shows "sort (remdups xs) = [0, 1]"
proof -
  have "sort (remdups xs) = sorted_list_of_set (set xs)"
    by (simp add: sorted_list_of_set_sort_remdups)
  also have "\<dots> = [0, 1]" using assms by simp
  finally show ?thesis .
qed

lemma cell_count_list: "cell ys ps t p = count_list (zip ys ps) (t, p)"
  unfolding cell_def by (induction "zip ys ps" arbitrary: ys ps) (auto simp: count_list_eq_length_filter intro: arg_cong[where f=length] filter_cong)

lemma cell_card:
  assumes "length ys = length ps"
  shows "cell ys ps t p = card {i. i < length ys \<and> ys ! i = t \<and> ps ! i = p}"
proof -
  have "cell ys ps t p = card {i. i < length (zip ys ps) \<and> (\<lambda>(a, b). a = t \<and> b = p) (zip ys ps ! i)}"
    unfolding cell_def by (rule length_filter_conv_card)
  also have "{i. i < length (zip ys ps) \<and> (\<lambda>(a, b). a = t \<and> b = p) (zip ys ps ! i)}
           = {i. i < length ys \<and> ys ! i = t \<and> ps ! i = p}"
    using assms by auto
  finally show ?thesis .
qed

lemma matches_binary:
  assumes "set ys \<subseteq> {0, 1::int}" "set ps \<subseteq> {0, 1::int}" "length ys = length ps"
  shows "length (filter (\<lambda>(t, p). t = p) (zip ys ps)) = cell ys ps 0 0 + cell ys ps 1 1"
  using assms(3,1,2) unfolding cell_def by (induction ys ps rule: list_induct2) auto

lemma total_binary:
  assumes "set ys \<subseteq> {0, 1::int}" "set ps \<subseteq> {0, 1::int}" "length ys = length ps"
  shows "length ys = cell ys ps 0 0 + cell ys ps 0 1 + cell ys ps 1 0 + cell ys ps 1 1"
  using assms(3,1,2) unfolding cell_def by (induction ys ps rule: list_induct2) auto

lemma row_sum:
  assumes "length ys = length ps" "set ps \<subseteq> {0, 1::int}"
  shows "count_list ys a = cell ys ps a 0 + cell ys ps a 1"
  using assms unfolding cell_def by (induction ys ps rule: list_induct2) auto

lemma col_sum:
  assumes "length ys = length ps" "set ys \<subseteq> {0, 1::int}"
  shows "count_list ps b = cell ys ps 0 b + cell ys ps 1 b"
  using assms unfolding cell_def by (induction ys ps rule: list_induct2) auto

lemma confusion_matrix_binary:
  assumes "length ys = length ps" "set ys \<union> set ps = {0, 1}"
  shows "confusion_matrix ys ps =
         Inr [[cell ys ps 0 0, cell ys ps 0 1], [cell ys ps 1 0, cell ys ps 1 1]]"
  using assms sort_remdups_binary[of "ys @ ps"]
  by (simp add: confusion_matrix_def unique_labels_def cell_count_list)

lemma roc_auc_score_binary:
  assumes "length ys = length ss" "set ys = {0, 1}"
  shows "\<exists>r. roc_auc_score ys ss = Inr (Finite r)"
  using assms sort_remdups_binary[of ys] by (simp add: roc_auc_score_def)

lemma count_list_pos: "x \<in> set xs \<Longrightarrow> 0 < count_list xs x"
  by (induction xs) auto

lemma calculate_metrics_two_classes:
  assumes len: "length y_true = length y_pred_prob"
    and both: "set y_true \<union> set (threshold_labels y_pred_prob threshold) = {0, 1}"
    and roc: "roc_auc_score y_true (column_1 y_pred_prob) = Inr roc_auc"
  shows "calculate_metrics y_true y_pred_prob threshold =
         Inr (of_nat (length (filter (\<lambda>(t, p). t = p) (zip y_true (threshold_labels y_pred_prob threshold))))
                / of_nat (length y_true),
              (if 0 < cell y_true (threshold_labels y_pred_prob threshold) 1 1
                      + cell y_true (threshold_labels y_pred_prob threshold) 1 0
               then of_nat (cell y_true (threshold_labels y_pred_prob threshold) 1 1)
                    / of_nat (cell y_true (threshold_labels y_pred_prob threshold) 1 1
                              + cell y_true (threshold_labels y_pred_prob threshold) 1 0)
               else 0),
              (if 0 < cell y_true (threshold_labels y_pred_prob threshold) 0 0
                      + cell y_true (threshold_labels y_pred_prob threshold) 0 1
               then of_nat (cell y_true (threshold_labels y_pred_prob threshold) 0 0)
                    / of_nat (cell y_true (threshold_labels y_pred_prob threshold) 0 0
                              + cell y_true (threshold_labels y_pred_prob threshold) 0 1)
               else 0),
              roc_auc)"
proof -
  let ?p = "threshold_labels y_pred_prob threshold"
  have l: "length y_true = length ?p" using len by (simp add: threshold_labels_def)
  show ?thesis
    unfolding calculate_metrics_def y_pred_eq Let_def
    by (simp add: confusion_matrix_binary[OF l both] ravel_def accuracy_score_def l roc)
qed

lemma calculate_metrics_single_label:
  assumes "length y_true = length y_pred_prob" "y_true \<noteq> []"
    and "\<forall>t \<in> set y_true. t = 0" and "\<forall>q \<in> set y_pred_prob. \<not> float32 threshold < snd q"
  shows "calculate_metrics y_true y_pred_prob threshold
         = Inl (ValueError ''not enough values to unpack (expected 4, got 1)'')"
proof -
  let ?p = "threshold_labels y_pred_prob threshold"
  have p: "?p = map (\<lambda>q. 0) y_pred_prob"
    using assms(4) by (simp add: threshold_labels_def)
  have "set (y_true @ ?p) = {0}"
    using assms(1-3) unfolding p by (cases y_true) auto
  then have "sort (remdups (y_true @ ?p)) = [0]"
    by (simp add: sorted_list_of_set_sort_remdups[symmetric])
  then show ?thesis
    using assms(1)
    by (simp add: calculate_metrics_def y_pred_eq confusion_matrix_def unique_labels_def
        ravel_def unpack_error_def threshold_labels_def)
qed

lemma calculate_metrics_empty:
  "calculate_metrics [] [] threshold
   = Inl (ValueError ''not enough values to unpack (expected 4, got 0)'')"
  by (simp add: calculate_metrics_def y_pred_eq confusion_matrix_def unique_labels_def
        ravel_def unpack_error_def threshold_labels_def)

section \<open>Properties of the harness\<close>

lemma get_model_unsupported:
  "model_name \<notin> set supported_models \<Longrightarrow>
   get_model lib model_name input_shape st = (Inl (ValueError ''Unsupported model name.''), st)"
  by (simp add: supported_models_def get_model_def)

lemma get_model_supported:
  assumes "model_name \<in> set supported_models"
  shows "\<exists>arch sh. get_model lib model_name input_shape st = build lib arch sh st"
proof -
  consider "model_name = ''resnet''" | "model_name = ''alexnet''" | "model_name = ''zfnet''"
    | "model_name = ''bionnica''" | "model_name = ''bfnet''"
    using assms unfolding supported_models_def by auto
  then show ?thesis
  proof cases
    case 1 then have "get_model lib model_name input_shape st = build lib ResNet (224, 224, 3) st"
      by (simp add: get_model_def)
    then show ?thesis by blast
  next
    case 2 then have "get_model lib model_name input_shape st = build lib AlexNet input_shape st"
      by (simp add: get_model_def)
    then show ?thesis by blast
  next
    case 3 then have "get_model lib model_name input_shape st = build lib ZFNet input_shape st"
      by (simp add: get_model_def)
    then show ?thesis by blast
  next
    case 4 then have "get_model lib model_name input_shape st = build lib Bionnica input_shape st"
      by (simp add: get_model_def)
    then show ?thesis by blast
  next
    case 5 then have "get_model lib model_name input_shape st = build lib BFNet input_shape st"
      by (simp add: get_model_def)
    then show ?thesis by blast
  qed
qed

text \<open>The factory reads the state only for the instance number, and only counts it up.\<close>

lemma get_model_fresh:
  "get_model lib model_name (64, 64, 3) st =
     (case fresh_model lib model_name (instances st) of
        Inl e \<Rightarrow> (Inl e, st)
      | Inr model \<Rightarrow> (Inr model, st\<lparr>instances := Suc (instances st)\<rparr>))"
  by (simp add: fresh_model_def get_model_def build_def)

lemma fresh_model_unsupported:
  "model_name \<notin> set supported_models \<Longrightarrow>
   fresh_model lib model_name inst = Inl (ValueError ''Unsupported model name.'')"
  by (simp add: fresh_model_def get_model_unsupported)

lemma fresh_model_supported:
  assumes "model_name \<in> set supported_models"
  shows "\<exists>arch sh. fresh_model lib model_name inst =
           Inr \<lparr>model_architecture = arch, model_input_shape = sh, model_instance = inst,
                model_weights = initial_weights lib inst arch sh\<rparr>"
  using get_model_supported[OF assms, of lib "(64, 64, 3)" "\<lparr>instances = inst, fit_calls = []\<rparr>"]
  by (auto simp: fresh_model_def build_def)

lemma fresh_model_Inr:
  assumes "fresh_model lib model_name inst = Inr model"
  shows "model_instance model = inst"
    and "model_weights model
         = initial_weights lib inst (model_architecture model) (model_input_shape model)"
    and "model_name \<in> set supported_models"
  using assms fresh_model_supported[of model_name lib inst] fresh_model_unsupported[of model_name lib inst]
  by (cases "model_name \<in> set supported_models"; auto)+

text \<open>
  The loop body in terms of the reference definitions: its result is that of
  \<open>evaluate_fold\<close>, and it leaves a trainer call behind exactly when the slices
  could be taken and the factory returned a model.
\<close>

lemma fold_body_eq:
  "fold_body lib images labels model_name fold_no train_idx test_idx st =
     (map_sum id (fold_record fold_no)
        (evaluate_fold lib images labels model_name (instances st) (train_idx, test_idx)),
      case np_index images train_idx of Inl _ \<Rightarrow> st | Inr _ \<Rightarrow>
      case np_index images test_idx of Inl _ \<Rightarrow> st | Inr _ \<Rightarrow>
      case np_index labels train_idx of Inl _ \<Rightarrow> st | Inr _ \<Rightarrow>
      case np_index labels test_idx of Inl _ \<Rightarrow> st | Inr _ \<Rightarrow>
      case fresh_model lib model_name (instances st) of Inl _ \<Rightarrow> st
      | Inr model \<Rightarrow>
          st\<lparr>instances := Suc (instances st),
             fit_calls := fit_calls st @
               [fold_call model_name fold_no model (train_idx, test_idx)]\<rparr>)"
  unfolding fold_body_def evaluate_fold_def get_model_fresh
  by (simp add: Let_def fold_call_def fold_record_def split: sum.split prod.split)

lemma evaluate_fold_Inr_fresh:
  assumes "evaluate_fold lib images labels model_name inst fold_idx = Inr m"
  shows "\<exists>model. fresh_model lib model_name inst = Inr model"
  using assms unfolding evaluate_fold_def by (auto split: sum.splits)

text \<open>A fold whose evaluation succeeds: the body returns its record and leaves its call.\<close>

lemma fold_body_success:
  assumes "evaluate_fold lib images labels model_name (instances st) (train_idx, test_idx) = Inr m"
  shows "\<exists>model. fresh_model lib model_name (instances st) = Inr model
           \<and> fold_body lib images labels model_name fold_no train_idx test_idx st =
               (Inr (fold_record fold_no m),
                st\<lparr>instances := Suc (instances st),
                   fit_calls := fit_calls st @
                     [fold_call model_name fold_no model (train_idx, test_idx)]\<rparr>)"
proof -
  obtain model where f: "fresh_model lib model_name (instances st) = Inr model"
    using evaluate_fold_Inr_fresh[OF assms] by blast
  have idx: "\<exists>a. np_index images train_idx = Inr a" "\<exists>a. np_index images test_idx = Inr a"
    "\<exists>a. np_index labels train_idx = Inr a" "\<exists>a. np_index labels test_idx = Inr a"
    using assms unfolding evaluate_fold_def by (auto split: sum.splits)
  have "fold_body lib images labels model_name fold_no train_idx test_idx st =
               (Inr (fold_record fold_no m),
                st\<lparr>instances := Suc (instances st),
                   fit_calls := fit_calls st @
                     [fold_call model_name fold_no model (train_idx, test_idx)]\<rparr>)"
    unfolding fold_body_eq assms f using idx by auto
  then show ?thesis using f by blast
qed

text \<open>A fold for an unsupported name: the body raises and leaves the state as it was.\<close>

lemma fold_body_unsupported:
  assumes "model_name \<notin> set supported_models"
    and "list_all (\<lambda>i. i < length images \<and> i < length labels) (train_idx @ test_idx)"
  shows "fold_body lib images labels model_name fold_no train_idx test_idx st
         = (Inl (ValueError ''Unsupported model name.''), st)"
proof -
  have r: "list_all (\<lambda>i. i < length images) train_idx" "list_all (\<lambda>i. i < length images) test_idx"
    "list_all (\<lambda>i. i < length labels) train_idx" "list_all (\<lambda>i. i < length labels) test_idx"
    using assms(2) by (auto simp: list_all_iff)
  show ?thesis
    unfolding fold_body_eq evaluate_fold_def
    by (simp add: np_index_def r fresh_model_unsupported[OF assms(1)])
qed

lemma fold_body_Inr:
  assumes "fold_body lib images labels model_name fold_no train_idx test_idx st = (Inr r, st')"
  obtains m model where
    "evaluate_fold lib images labels model_name (instances st) (train_idx, test_idx) = Inr m"
    "r = fold_record fold_no m"
    "fresh_model lib model_name (instances st) = Inr model"
    "st' = st\<lparr>instances := Suc (instances st),
              fit_calls := fit_calls st @ [fold_call model_name fold_no model (train_idx, test_idx)]\<rparr>"
proof -
  obtain m where m: "evaluate_fold lib images labels model_name (instances st) (train_idx, test_idx) = Inr m"
    using assms unfolding fold_body_eq
    by (cases "evaluate_fold lib images labels model_name (instances st) (train_idx, test_idx)") auto
  from fold_body_success[OF m, of fold_no] obtain model where
    f: "fresh_model lib model_name (instances st) = Inr model"
    and b: "fold_body lib images labels model_name fold_no train_idx test_idx st =
               (Inr (fold_record fold_no m),
                st\<lparr>instances := Suc (instances st),
                   fit_calls := fit_calls st @
                     [fold_call model_name fold_no model (train_idx, test_idx)]\<rparr>)"
    by blast
  show ?thesis using that[OF m _ f] assms b by simp
qed

lemma fold_body_Inl:
  assumes "fold_body lib images labels model_name fold_no train_idx test_idx st = (Inl e, st')"
  shows "evaluate_fold lib images labels model_name (instances st) (train_idx, test_idx) = Inl e"
    and "st' = st \<or> (\<exists>model. fresh_model lib model_name (instances st) = Inr model \<and>
           st' = st\<lparr>instances := Suc (instances st),
              fit_calls := fit_calls st @ [fold_call model_name fold_no model (train_idx, test_idx)]\<rparr>)"
proof -
  show "evaluate_fold lib images labels model_name (instances st) (train_idx, test_idx) = Inl e"
    using assms unfolding fold_body_eq
    by (cases "evaluate_fold lib images labels model_name (instances st) (train_idx, test_idx)") auto
  show "st' = st \<or> (\<exists>model. fresh_model lib model_name (instances st) = Inr model \<and>
           st' = st\<lparr>instances := Suc (instances st),
              fit_calls := fit_calls st @ [fold_call model_name fold_no model (train_idx, test_idx)]\<rparr>)"
    using assms unfolding fold_body_eq by (auto split: sum.splits)
qed


text \<open>
  The loop over folds when every fold's evaluation succeeds: it returns the records in
  order and has made one trainer call per fold, each on a model fresh from the
  factory.
\<close>

lemma fold_loop_run:
  assumes "\<forall>i<length fs. evaluate_fold lib images labels model_name (instances st + i)
                              (snd (fs ! i)) = Inr (ms ! i)"
    and "length ms = length fs"
  shows "\<exists>calls. fold_loop lib images labels model_name fs acc st =
            (Inr (acc @ map (\<lambda>(f, m). fold_record (fst f) m) (zip fs ms)),
             st\<lparr>instances := instances st + length fs, fit_calls := fit_calls st @ calls\<rparr>)
          \<and> length calls = length fs
          \<and> (\<forall>i<length fs. \<exists>model.
                fresh_model lib model_name (instances st + i) = Inr model
                \<and> calls ! i = fold_call model_name (fst (fs ! i)) model (snd (fs ! i)))"
  using assms
proof (induction fs arbitrary: acc st ms)
  case Nil
  then show ?case by simp
next
  case (Cons f fs)
  obtain fold_no train_idx test_idx where f: "f = (fold_no, train_idx, test_idx)"
    by (cases f) auto
  obtain m ms' where ms: "ms = m # ms'"
    using Cons.prems(2) by (cases ms) auto
  have ev0: "evaluate_fold lib images labels model_name (instances st) (train_idx, test_idx) = Inr m"
    using Cons.prems(1) f ms by auto
  from fold_body_success[OF ev0, of fold_no] obtain model where
    fresh: "fresh_model lib model_name (instances st) = Inr model"
    and body: "fold_body lib images labels model_name fold_no train_idx test_idx st =
               (Inr (fold_record fold_no m),
                st\<lparr>instances := Suc (instances st),
                   fit_calls := fit_calls st @
                     [fold_call model_name fold_no model (train_idx, test_idx)]\<rparr>)"
    by blast
  let ?c = "fold_call model_name fold_no model (train_idx, test_idx)"
  let ?st1 = "st\<lparr>instances := Suc (instances st), fit_calls := fit_calls st @ [?c]\<rparr>"
  have evs: "\<forall>i<length fs. evaluate_fold lib images labels model_name (instances ?st1 + i)
                              (snd (fs ! i)) = Inr (ms' ! i)"
  proof (intro allI impI)
    fix i assume "i < length fs"
    then have "evaluate_fold lib images labels model_name (instances st + Suc i)
                 (snd ((f # fs) ! Suc i)) = Inr (ms ! Suc i)"
      using Cons.prems(1) by (metis Suc_less_eq length_Cons)
    then show "evaluate_fold lib images labels model_name (instances ?st1 + i)
                              (snd (fs ! i)) = Inr (ms' ! i)"
      using ms by simp
  qed
  have len': "length ms' = length fs" using Cons.prems(2) ms by simp
  from Cons.IH[OF evs len', of "acc @ [fold_record fold_no m]"] obtain calls where
    run: "fold_loop lib images labels model_name fs (acc @ [fold_record fold_no m]) ?st1 =
            (Inr ((acc @ [fold_record fold_no m]) @ map (\<lambda>(f, m). fold_record (fst f) m) (zip fs ms')),
             ?st1\<lparr>instances := instances ?st1 + length fs, fit_calls := fit_calls ?st1 @ calls\<rparr>)"
    and lc: "length calls = length fs"
    and cs: "\<forall>i<length fs. \<exists>model.
                fresh_model lib model_name (instances ?st1 + i) = Inr model
                \<and> calls ! i = fold_call model_name (fst (fs ! i)) model (snd (fs ! i))"
    by blast
  have 1: "fold_loop lib images labels model_name (f # fs) acc st =
            (Inr (acc @ map (\<lambda>(f, m). fold_record (fst f) m) (zip (f # fs) ms)),
             st\<lparr>instances := instances st + length (f # fs),
                fit_calls := fit_calls st @ (?c # calls)\<rparr>)"
    using run body f ms by simp
  have 2: "length (?c # calls) = length (f # fs)" using lc by simp
  have 3: "\<exists>model. fresh_model lib model_name (instances st + i) = Inr model
                \<and> (?c # calls) ! i = fold_call model_name (fst ((f # fs) ! i)) model (snd ((f # fs) ! i))"
    if "i < length (f # fs)" for i
  proof (cases i)
    case 0
    then show ?thesis using fresh f by simp
  next
    case (Suc j)
    then have "j < length fs" using that by simp
    then show ?thesis using cs Suc by simp
  qed
  show ?case using 1 2 3 by blast
qed

lemma zip_enumerate_records:
  "map (\<lambda>(f, m). fold_record (fst f) m) (zip (enumerate 0 folds) (map g [0..<length folds]))
   = map (\<lambda>i. fold_record i (g i)) [0..<length folds]"
  by (intro nth_equalityI) (simp_all add: nth_enumerate_eq)

lemma map_upt_shift:
  "map f [0..<Suc n] = f 0 # map (\<lambda>j. f (Suc j)) [0..<n]"
  by (intro nth_equalityI) (auto simp: nth_Cons' simp del: upt_Suc)

text \<open>The outer loop run on a list of names and then on another.\<close>

lemma model_loop_append:
  "model_loop lib skf images labels (xs @ ys) results st =
     (case model_loop lib skf images labels xs results st of
        (Inl e, st') \<Rightarrow> (Inl e, st')
      | (Inr results', st') \<Rightarrow> model_loop lib skf images labels ys results' st')"
proof (induction xs arbitrary: results st)
  case Nil
  show ?case by simp
next
  case (Cons x xs)
  show ?case
  proof (cases "skf_split lib skf images labels")
    case (Inl e)
    then show ?thesis by simp
  next
    case (Inr folds)
    obtain res st1 where fl: "fold_loop lib images labels x (enumerate 0 folds) [] st = (res, st1)"
      by (cases "fold_loop lib images labels x (enumerate 0 folds) [] st")
    show ?thesis
    proof (cases res)
      case (Inl e)
      then show ?thesis using Inr fl by simp
    next
      case r: (Inr fold_results)
      show ?thesis using Inr fl r Cons.IH by simp
    qed
  qed
qed

text \<open>
  The loop over models when every evaluation succeeds: every model is evaluated on
  every fold that the splitter returns, call number \<open>j * L + i\<close> is the one for
  model \<open>j\<close> and fold \<open>i\<close>, and a model's row holds the column means of its fold
  records.
\<close>

lemma model_loop_run:
  assumes split: "skf_split lib skf images labels = Inr folds"
    and evals: "\<forall>j<length models. \<forall>i<length folds.
             evaluate_fold lib images labels (models ! j)
               (instances st + j * length folds + i) (folds ! i) = Inr (ms j i)"
  shows "\<exists>calls. model_loop lib skf images labels models results st =
            (Inr (results @ map (\<lambda>j. (models ! j,
                     DataFrame_mean (map (\<lambda>i. fold_record i (ms j i)) [0..<length folds])))
                   [0..<length models]),
             st\<lparr>instances := instances st + length models * length folds,
                fit_calls := fit_calls st @ calls\<rparr>)
          \<and> length calls = length models * length folds
          \<and> (\<forall>j<length models. \<forall>i<length folds. \<exists>model.
                fresh_model lib (models ! j) (instances st + j * length folds + i) = Inr model
                \<and> calls ! (j * length folds + i) = fold_call (models ! j) i model (folds ! i))"
  using evals
proof (induction models arbitrary: results st ms)
  case Nil
  then show ?case by simp
next
  case (Cons x xs)
  let ?L = "length folds"
  let ?fs = "enumerate 0 folds"
  have ev0: "\<forall>i<length ?fs. evaluate_fold lib images labels x (instances st + i)
                              (snd (?fs ! i)) = Inr (map (ms 0) [0..<?L] ! i)"
  proof (intro allI impI)
    fix i assume "i < length ?fs"
    then have i: "i < ?L" by simp
    have "evaluate_fold lib images labels ((x # xs) ! 0) (instances st + 0 * ?L + i) (folds ! i)
          = Inr (ms 0 i)"
      using Cons.prems i by (metis length_Cons zero_less_Suc)
    then show "evaluate_fold lib images labels x (instances st + i)
                              (snd (?fs ! i)) = Inr (map (ms 0) [0..<?L] ! i)"
      using i by (simp add: nth_enumerate_eq)
  qed
  from fold_loop_run[OF ev0, of "[]"] obtain cs where
    fl: "fold_loop lib images labels x ?fs [] st =
            (Inr (map (\<lambda>(f, m). fold_record (fst f) m) (zip ?fs (map (ms 0) [0..<?L]))),
             st\<lparr>instances := instances st + ?L, fit_calls := fit_calls st @ cs\<rparr>)"
    and lcs: "length cs = ?L"
    and ccs: "\<forall>i<?L. \<exists>model.
                fresh_model lib x (instances st + i) = Inr model
                \<and> cs ! i = fold_call x (fst (?fs ! i)) model (snd (?fs ! i))"
    by auto
  let ?row = "(x, DataFrame_mean (map (\<lambda>i. fold_record i (ms 0 i)) [0..<?L]))"
  let ?st1 = "st\<lparr>instances := instances st + ?L, fit_calls := fit_calls st @ cs\<rparr>"
  have ev': "\<forall>j<length xs. \<forall>i<?L.
             evaluate_fold lib images labels (xs ! j)
               (instances ?st1 + j * ?L + i) (folds ! i) = Inr (ms (Suc j) i)"
  proof (intro allI impI)
    fix j i assume j: "j < length xs" and i: "i < ?L"
    have "evaluate_fold lib images labels ((x # xs) ! Suc j)
               (instances st + Suc j * ?L + i) (folds ! i) = Inr (ms (Suc j) i)"
      using Cons.prems j i by (metis Suc_less_eq length_Cons)
    then show "evaluate_fold lib images labels (xs ! j)
               (instances ?st1 + j * ?L + i) (folds ! i) = Inr (ms (Suc j) i)"
      by (simp add: add.assoc add.commute add.left_commute)
  qed
  from Cons.IH[OF ev', of "results @ [?row]"] obtain ds where
    ml: "model_loop lib skf images labels xs (results @ [?row]) ?st1 =
            (Inr ((results @ [?row]) @ map (\<lambda>j. (xs ! j,
                     DataFrame_mean (map (\<lambda>i. fold_record i (ms (Suc j) i)) [0..<?L])))
                   [0..<length xs]),
             ?st1\<lparr>instances := instances ?st1 + length xs * ?L,
                fit_calls := fit_calls ?st1 @ ds\<rparr>)"
    and lds: "length ds = length xs * ?L"
    and cds: "\<forall>j<length xs. \<forall>i<?L. \<exists>model.
                fresh_model lib (xs ! j) (instances ?st1 + j * ?L + i) = Inr model
                \<and> ds ! (j * ?L + i) = fold_call (xs ! j) i model (folds ! i)"
    by blast
  have rows: "(results @ [?row]) @ map (\<lambda>j. (xs ! j,
                     DataFrame_mean (map (\<lambda>i. fold_record i (ms (Suc j) i)) [0..<?L])))
                   [0..<length xs]
              = results @ map (\<lambda>j. ((x # xs) ! j,
                     DataFrame_mean (map (\<lambda>i. fold_record i (ms j i)) [0..<?L])))
                   [0..<length (x # xs)]"
    using map_upt_shift[of "\<lambda>j. ((x # xs) ! j,
                     DataFrame_mean (map (\<lambda>i. fold_record i (ms j i)) [0..<?L]))" "length xs"]
    by simp
  have 1: "model_loop lib skf images labels (x # xs) results st =
            (Inr (results @ map (\<lambda>j. ((x # xs) ! j,
                     DataFrame_mean (map (\<lambda>i. fold_record i (ms j i)) [0..<?L])))
                   [0..<length (x # xs)]),
             st\<lparr>instances := instances st + length (x # xs) * ?L,
                fit_calls := fit_calls st @ (cs @ ds)\<rparr>)"
    using split fl ml unfolding rows[symmetric]
    by (simp add: zip_enumerate_records add.assoc add.commute add.left_commute)
  have 2: "length (cs @ ds) = length (x # xs) * ?L" using lcs lds by simp
  have 3: "\<exists>model. fresh_model lib ((x # xs) ! j) (instances st + j * ?L + i) = Inr model
                \<and> (cs @ ds) ! (j * ?L + i) = fold_call ((x # xs) ! j) i model (folds ! i)"
    if j: "j < length (x # xs)" and i: "i < ?L" for j i
  proof (cases j)
    case 0
    from ccs i obtain model where
      "fresh_model lib x (instances st + i) = Inr model"
      "cs ! i = fold_call x (fst (?fs ! i)) model (snd (?fs ! i))"
      by blast
    then show ?thesis using 0 i lcs by (simp add: nth_append nth_enumerate_eq)
  next
    case (Suc j')
    then have j': "j' < length xs" using j by simp
    from cds j' i obtain model where
      m: "fresh_model lib (xs ! j') (instances ?st1 + j' * ?L + i) = Inr model"
         "ds ! (j' * ?L + i) = fold_call (xs ! j') i model (folds ! i)"
      by blast
    have a: "instances ?st1 + j' * ?L + i = instances st + j * ?L + i"
      using Suc by simp
    have b: "(cs @ ds) ! (j * ?L + i) = ds ! (j' * ?L + i)"
      using Suc lcs by (simp add: nth_append)
    show ?thesis using m Suc unfolding a b by auto
  qed
  show ?case using 1 2 3 by blast
qed

text \<open>
  An unsupported name at the head of the list, with at least one fold to run: the
  first fold's slices are taken, the factory raises, and nothing has been built or
  trained.
\<close>

lemma model_loop_unsupported:
  assumes split: "skf_split lib skf images labels = Inr folds"
    and folds: "folds \<noteq> []"
    and range: "list_all (\<lambda>i. i < length images \<and> i < length labels)
                  (fst (hd folds) @ snd (hd folds))"
    and bad: "model_name \<notin> set supported_models"
  shows "model_loop lib skf images labels (model_name # rest) results st
         = (Inl (ValueError ''Unsupported model name.''), st)"
proof -
  obtain train_idx test_idx fs where f: "folds = (train_idx, test_idx) # fs"
    using folds by (cases folds) auto
  have e: "enumerate 0 folds = (0, train_idx, test_idx) # enumerate 1 fs"
    unfolding f by simp
  have "fold_body lib images labels model_name 0 train_idx test_idx st
        = (Inl (ValueError ''Unsupported model name.''), st)"
    using fold_body_unsupported[OF bad] range f by simp
  then show ?thesis using split e by simp
qed


text \<open>The columns and column means of a non-empty list of fold records.\<close>

lemma DataFrame_columns_same:
  assumes "\<forall>r \<in> set rows. map fst r = keys"
  shows "DataFrame_columns rows keys = keys"
  using assms by (induction rows) simp_all

lemma DataFrame_columns_uniform:
  assumes "\<forall>r \<in> set rows. map fst r = keys" "distinct keys" "rows \<noteq> []"
  shows "DataFrame_columns rows [] = keys"
proof -
  obtain r rs where rows: "rows = r # rs" using assms(3) by (cases rows) auto
  have "DataFrame_columns rows [] = DataFrame_columns rs keys"
    using assms(1,2) rows by (simp add: distinct_remdups_id)
  also have "\<dots> = keys"
    using assms(1) rows by (intro DataFrame_columns_same) simp
  finally show ?thesis .
qed

lemma column_values_map:
  assumes "\<And>z. z \<in> set zs \<Longrightarrow> map_of (f z) c = Some (g z)"
  shows "column_values (map f zs) c = map g zs"
  using assms unfolding column_values_def by (induction zs) simp_all

lemma fold_record_keys:
  "map fst (fold_record i m) = [''fold'', ''accuracy'', ''sensitivity'', ''specificity'', ''roc_auc'']"
  by (cases m) (simp add: fold_record_def)

lemma fold_record_lookup:
  "map_of (fold_record i m) ''fold'' = Some (Finite (of_nat (i + 1)))"
  "map_of (fold_record i m) ''accuracy'' = Some (Finite (accuracy_of m))"
  "map_of (fold_record i m) ''sensitivity'' = Some (Finite (sensitivity_of m))"
  "map_of (fold_record i m) ''specificity'' = Some (Finite (specificity_of m))"
  "map_of (fold_record i m) ''roc_auc'' = Some (roc_auc_of m)"
  by (cases m; simp add: fold_record_def accuracy_of_def sensitivity_of_def
        specificity_of_def roc_auc_of_def)+

lemma finite_values_Finite: "finite_values (map (\<lambda>z. Finite (g z)) zs) = map g zs"
  unfolding finite_values_def by (induction zs) simp_all

lemma Series_mean_Finite:
  assumes "zs \<noteq> []"
  shows "Series_mean (map (\<lambda>z. Finite (g z)) zs) = Finite (mean (map g zs))"
proof -
  have "Infinity \<notin> set (map (\<lambda>z. Finite (g z)) zs)" by auto
  moreover have "map g zs \<noteq> []" using assms by simp
  ultimately show ?thesis
    unfolding Series_mean_def finite_values_Finite mean_def
    by (cases "map g zs") simp_all
qed

lemma Series_mean_defined:
  assumes "Infinity \<notin> set vs"
  shows "Series_mean vs = defined_mean vs"
  using assms unfolding Series_mean_def defined_mean_def mean_def
  by (cases "finite_values vs") simp_all

lemma finite_values_all:
  assumes "NaN \<notin> set vs" "Infinity \<notin> set vs"
  shows "length (finite_values vs) = length vs"
  using assms unfolding finite_values_def
proof (induction vs)
  case Nil
  then show ?case by simp
next
  case (Cons v vs)
  then show ?case by (cases v) simp_all
qed

lemma defined_mean_arithmetic:
  assumes "NaN \<notin> set vs" "Infinity \<notin> set vs" "vs \<noteq> []"
  shows "defined_mean vs = arithmetic_mean vs"
proof -
  have "finite_values vs \<noteq> []"
    using finite_values_all[OF assms(1,2)] assms(3) by auto
  then show ?thesis
    using assms unfolding defined_mean_def arithmetic_mean_def by simp
qed

lemma DataFrame_mean_fold_records:
  assumes "0 < n"
  shows "DataFrame_mean (map (\<lambda>i. fold_record i (g i)) [0..<n]) =
           [(''fold'', Finite (mean (map (\<lambda>i. of_nat (i + 1)) [0..<n]))),
            (''accuracy'', Finite (mean (map (\<lambda>i. accuracy_of (g i)) [0..<n]))),
            (''sensitivity'', Finite (mean (map (\<lambda>i. sensitivity_of (g i)) [0..<n]))),
            (''specificity'', Finite (mean (map (\<lambda>i. specificity_of (g i)) [0..<n]))),
            (''roc_auc'', Series_mean (map (\<lambda>i. roc_auc_of (g i)) [0..<n]))]"
proof -
  let ?rows = "map (\<lambda>i. fold_record i (g i)) [0..<n]"
  have ne: "[0..<n] \<noteq> []" using assms by simp
  have cols: "DataFrame_columns ?rows [] =
                [''fold'', ''accuracy'', ''sensitivity'', ''specificity'', ''roc_auc'']"
    using ne by (intro DataFrame_columns_uniform) (auto simp: fold_record_keys)
  have v1: "column_values ?rows ''fold'' = map (\<lambda>i. Finite (of_nat (i + 1))) [0..<n]"
    by (rule column_values_map) (simp add: fold_record_lookup)
  have v2: "column_values ?rows ''accuracy'' = map (\<lambda>i. Finite (accuracy_of (g i))) [0..<n]"
    by (rule column_values_map) (simp add: fold_record_lookup)
  have v3: "column_values ?rows ''sensitivity'' = map (\<lambda>i. Finite (sensitivity_of (g i))) [0..<n]"
    by (rule column_values_map) (simp add: fold_record_lookup)
  have v4: "column_values ?rows ''specificity'' = map (\<lambda>i. Finite (specificity_of (g i))) [0..<n]"
    by (rule column_values_map) (simp add: fold_record_lookup)
  have v5: "column_values ?rows ''roc_auc'' = map (\<lambda>i. roc_auc_of (g i)) [0..<n]"
    by (rule column_values_map) (simp add: fold_record_lookup)
  show ?thesis
    unfolding DataFrame_mean_def cols
    by (simp add: v1 v2 v3 v4 v5 Series_mean_Finite[OF ne])
qed

text \<open>The area under the curve is a number or NaN, never infinite.\<close>

lemma roc_auc_score_not_infinite:
  assumes "roc_auc_score y_true y_score = Inr v"
  shows "v \<noteq> Infinity"
  using assms unfolding roc_auc_score_def by (auto split: list.splits if_splits)

lemma calculate_metrics_not_infinite:
  assumes "calculate_metrics y_true y_pred_prob threshold = Inr m"
  shows "roc_auc_of m \<noteq> Infinity"
  using assms roc_auc_score_not_infinite
  unfolding calculate_metrics_def roc_auc_of_def
  by (fastforce simp: Let_def split: sum.splits list.splits)

lemma evaluate_fold_not_infinite:
  assumes "evaluate_fold lib images labels model_name inst fold_idx = Inr m"
  shows "roc_auc_of m \<noteq> Infinity"
  using assms calculate_metrics_not_infinite
  unfolding evaluate_fold_def calculate_metrics_default_def
  by (auto split: sum.splits)

text \<open>A list repeated: its element at a position.\<close>

lemma nth_concat_replicate:
  assumes "n < m * length xs"
  shows "concat (replicate m xs) ! n = xs ! (n mod length xs)"
  using assms
proof (induction m arbitrary: n)
  case 0
  then show ?case by simp
next
  case (Suc m)
  show ?case
  proof (cases "n < length xs")
    case True
    then show ?thesis by (simp add: nth_append)
  next
    case False
    then have "n - length xs < m * length xs" using Suc.prems by simp
    from Suc.IH[OF this] have "concat (replicate m xs) ! (n - length xs) = xs ! ((n - length xs) mod length xs)" .
    moreover have "(n - length xs) mod length xs = n mod length xs"
      using False by (simp add: le_mod_geq)
    ultimately show ?thesis using False by (simp add: nth_append)
  qed
qed

text \<open>The whole run when every evaluation succeeds.\<close>

lemma harness_run:
  assumes k: "2 \<le> k"
    and split: "skf_split lib \<lparr>n_splits = k, shuffle = True, random_state = 42\<rparr> images labels
                = Inr folds"
    and evals: "\<forall>j<length models. \<forall>i<length folds.
             evaluate_fold lib images labels (models ! j)
               (instances st + j * length folds + i) (folds ! i) = Inr (ms j i)"
  shows "\<exists>calls. federated_kfold_cross_validation lib images labels models k st =
            (Inr (map (\<lambda>j. (models ! j,
                     DataFrame_mean (map (\<lambda>i. fold_record i (ms j i)) [0..<length folds])))
                   [0..<length models]),
             st\<lparr>instances := instances st + length models * length folds,
                fit_calls := fit_calls st @ calls\<rparr>)
          \<and> length calls = length models * length folds
          \<and> (\<forall>j<length models. \<forall>i<length folds. \<exists>model.
                fresh_model lib (models ! j) (instances st + j * length folds + i) = Inr model
                \<and> calls ! (j * length folds + i) = fold_call (models ! j) i model (folds ! i))"
proof -
  have init: "StratifiedKFold_init k True 42
              = Inr \<lparr>n_splits = k, shuffle = True, random_state = 42\<rparr>"
    using k by (simp add: StratifiedKFold_init_def)
  show ?thesis
    using model_loop_run[OF split evals, of "[]"]
    unfolding federated_kfold_cross_validation_def init by simp
qed


text \<open>The small library: its folds and the evaluation of each fold.\<close>

lemma demo_split:
  "skf_split demo_library \<lparr>n_splits = 2, shuffle = True, random_state = 42\<rparr>
     demo_images labels = Inr demo_folds"
  by (simp add: demo_library_def demo_images_def demo_folds_def)

lemmas demo_eval =
  evaluate_fold_def fresh_model_def get_model_def build_def demo_library_def demo_images_def
  demo_labels_def scarce_labels_def np_index_def metrics_eval

lemma demo_any_instance:
  "evaluate_fold demo_library images labels model_name inst fold_idx
   = evaluate_fold demo_library images labels model_name 0 fold_idx"
  by (simp add: evaluate_fold_def fresh_model_def get_model_def build_def demo_library_def
      split: sum.split)

lemma demo_evaluate_fold:
  "evaluate_fold demo_library demo_images demo_labels ''resnet'' 0 ([3, 4, 5], [0, 1, 2])
     = Inr (2 / 3, 1, 1 / 2, Finite (3 / 4))"
  "evaluate_fold demo_library demo_images demo_labels ''resnet'' 0 ([0, 1, 2], [3, 4, 5])
     = Inr (2 / 3, 1 / 2, 1, Finite (3 / 4))"
  "evaluate_fold demo_library demo_images demo_labels ''bfnet'' 0 ([3, 4, 5], [0, 1, 2])
     = Inr (2 / 3, 1, 1 / 2, Finite (3 / 4))"
  "evaluate_fold demo_library demo_images demo_labels ''bfnet'' 0 ([0, 1, 2], [3, 4, 5])
     = Inr (2 / 3, 1 / 2, 1, Finite (3 / 4))"
  by (simp_all add: demo_eval)

lemma demo_folds_nth:
  "length demo_folds = 2"
  "demo_folds ! 0 = ([3, 4, 5], [0, 1, 2])"
  "demo_folds ! 1 = ([0, 1, 2], [3, 4, 5])"
  by (simp_all add: demo_folds_def)

lemma demo_evals:
  assumes "set models \<subseteq> {''resnet'', ''bfnet''}"
  shows "\<forall>j<length models. \<forall>i<length demo_folds.
     evaluate_fold demo_library demo_images demo_labels (models ! j)
       (instances st + j * length demo_folds + i) (demo_folds ! i)
     = Inr (demo_metrics j i)"
proof (intro allI impI)
  fix j i :: nat
  assume j: "j < length models" and "i < length demo_folds"
  then have i: "i = 0 \<or> i = 1" unfolding demo_folds_nth(1) by auto
  have m: "models ! j = ''resnet'' \<or> models ! j = ''bfnet''"
    using assms j nth_mem by fastforce
  have "evaluate_fold demo_library demo_images demo_labels (models ! j) 0 (demo_folds ! i)
        = Inr (demo_metrics j i)"
  proof -
    consider "models ! j = ''resnet''" "i = 0" | "models ! j = ''resnet''" "i = 1"
      | "models ! j = ''bfnet''" "i = 0" | "models ! j = ''bfnet''" "i = 1"
      using i m by blast
    then show ?thesis
    proof cases
      case 1
      show ?thesis unfolding 1 demo_folds_nth demo_evaluate_fold by (simp add: demo_metrics_def)
    next
      case 2
      show ?thesis unfolding 2 demo_folds_nth demo_evaluate_fold by (simp add: demo_metrics_def)
    next
      case 3
      show ?thesis unfolding 3 demo_folds_nth demo_evaluate_fold by (simp add: demo_metrics_def)
    next
      case 4
      show ?thesis unfolding 4 demo_folds_nth demo_evaluate_fold by (simp add: demo_metrics_def)
    qed
  qed
  then show "evaluate_fold demo_library demo_images demo_labels (models ! j)
       (instances st + j * length demo_folds + i) (demo_folds ! i)
     = Inr (demo_metrics j i)"
    using demo_any_instance by metis
qed

lemma demo_first_fold_in_range:
  "list_all (\<lambda>i. i < length demo_images \<and> i < length demo_labels)
     (fst (hd demo_folds) @ snd (hd demo_folds))"
  by (simp add: demo_folds_def demo_images_def demo_labels_def)


text \<open>
  A list of trainer calls, one per model and fold in order: the folds it names are
  the splitter's folds, repeated once per model.
\<close>

lemma calls_splits:
  assumes len: "length calls = m * length folds"
    and calls: "\<forall>j<m. \<forall>i<length folds. \<exists>model.
                  fresh_model lib (models ! j) (n0 + j * length folds + i) = Inr model
                  \<and> calls ! (j * length folds + i) = fold_call (models ! j) i model (folds ! i)"
  shows "map (\<lambda>c. (call_fold c, call_train c, call_test c)) calls
         = concat (replicate m (map (\<lambda>i. (i + 1, folds ! i)) [0..<length folds]))"
proof (intro nth_equalityI)
  show "length (map (\<lambda>c. (call_fold c, call_train c, call_test c)) calls)
        = length (concat (replicate m (map (\<lambda>i. (i + 1, folds ! i)) [0..<length folds])))"
    using len by (simp add: length_concat sum_list_replicate)
next
  fix n assume "n < length (map (\<lambda>c. (call_fold c, call_train c, call_test c)) calls)"
  then have n: "n < m * length folds" using len by simp
  let ?L = "length folds"
  have L: "0 < ?L" using n by (cases "?L = 0") simp_all
  have j: "n div ?L < m" using n L by (simp add: less_mult_imp_div_less)
  have i: "n mod ?L < ?L" using L by simp
  have e: "n div ?L * ?L + n mod ?L = n" by simp
  from calls j i obtain model where
    "calls ! (n div ?L * ?L + n mod ?L) = fold_call (models ! (n div ?L)) (n mod ?L) model (folds ! (n mod ?L))"
    by blast
  then have c: "calls ! n = fold_call (models ! (n div ?L)) (n mod ?L) model (folds ! (n mod ?L))"
    unfolding e .
  have "concat (replicate m (map (\<lambda>i. (i + 1, folds ! i)) [0..<?L])) ! n
        = map (\<lambda>i. (i + 1, folds ! i)) [0..<?L] ! (n mod ?L)"
    using nth_concat_replicate[of n m "map (\<lambda>i. (i + 1, folds ! i)) [0..<?L]"] n by simp
  also have "\<dots> = (n mod ?L + 1, folds ! (n mod ?L))" using i by simp
  finally show "map (\<lambda>c. (call_fold c, call_train c, call_test c)) calls ! n
        = concat (replicate m (map (\<lambda>i. (i + 1, folds ! i)) [0..<?L])) ! n"
    using n len c by (simp add: fold_call_def)
qed

text \<open>
  Claim C2. For label and probability sequences of equal length in which both true
  classes and both predicted classes occur, \<open>calculate_metrics\<close> returns, with
  \<open>(tn, fp, fn, tp)\<close> the cells of the 2x2 confusion matrix of the (true, predicted)
  pairs, accuracy \<open>(tp + tn) / (tp + tn + fp + fn)\<close>, sensitivity \<open>tp / (tp + fn)\<close>
  and specificity \<open>tn / (tn + fp)\<close>. The variant that takes predicted labels
  returns the same three values.
\<close>

theorem metrics_formulas:
  assumes len: "length y_true = length y_pred_prob"
    and pred: "y_pred = threshold_labels y_pred_prob threshold"
    and true_classes: "set y_true = {0, 1}"
    and pred_classes: "set y_pred = {0, 1}"
    and tn: "tn = cell y_true y_pred 0 0" and fp: "fp = cell y_true y_pred 0 1"
    and fn: "fn = cell y_true y_pred 1 0" and tp: "tp = cell y_true y_pred 1 1"
  shows "(\<exists>roc_auc. calculate_metrics y_true y_pred_prob threshold =
            Inr (of_nat (tp + tn) / of_nat (tp + tn + fp + fn),
                 of_nat tp / of_nat (tp + fn),
                 of_nat tn / of_nat (tn + fp), roc_auc))
         \<and> calculate_metrics_labels y_true y_pred =
            Inr (Finite (of_nat (tp + tn) / of_nat (tp + tn + fp + fn)),
                 Finite (of_nat tp / of_nat (tp + fn)),
                 Finite (of_nat tn / of_nat (tn + fp)))"
proof -
  have l: "length y_true = length y_pred" using len pred by (simp add: threshold_labels_def)
  have sub: "set y_true \<subseteq> {0, 1}" "set y_pred \<subseteq> {0, 1}"
    using true_classes pred_classes by simp_all
  have un: "set y_true \<union> set y_pred = {0, 1}"
    using true_classes pred_classes by simp
  have pos: "0 < tp + fn"
    using row_sum[OF l sub(2), of 1] count_list_pos[of 1 y_true] true_classes tp fn by auto
  have neg: "0 < tn + fp"
    using row_sum[OF l sub(2), of 0] count_list_pos[of 0 y_true] true_classes tn fp by auto
  have total: "length y_true = tp + tn + fp + fn"
    using total_binary[OF sub l] tn fp fn tp by simp
  have matches: "length (filter (\<lambda>(t, p). t = p) (zip y_true y_pred)) = tp + tn"
    using matches_binary[OF sub l] tn tp by simp
  obtain r where r: "roc_auc_score y_true (column_1 y_pred_prob) = Inr r"
    using roc_auc_score_binary[of y_true "column_1 y_pred_prob"] len true_classes
    by (auto simp: column_1_def)
  have first: "calculate_metrics y_true y_pred_prob threshold =
            Inr (of_nat (tp + tn) / of_nat (tp + tn + fp + fn),
                 of_nat tp / of_nat (tp + fn),
                 of_nat tn / of_nat (tn + fp), r)"
    using calculate_metrics_two_classes[OF len un[unfolded pred] r] pos neg
    unfolding pred[symmetric] matches total tn fp fn tp by (simp add: add.commute)
  have second: "calculate_metrics_labels y_true y_pred =
            Inr (Finite (of_nat (tp + tn) / of_nat (tp + tn + fp + fn)),
                 Finite (of_nat tp / of_nat (tp + fn)),
                 Finite (of_nat tn / of_nat (tn + fp)))"
    using pos neg unfolding calculate_metrics_labels_def
    by (auto simp: confusion_matrix_binary[OF l un] ravel_def true_divide_def tn fp fn tp)
  show ?thesis using first second by blast
qed
theorem metrics_formulas_witness:
  "length [0, 1, 1, 0 :: int] = length [(9/10, 1/10), (1/5, 4/5), (7/10, 3/10), (2/5, 3/5 :: rat)]
   \<and> set [0, 1, 1, 0 :: int] = {0, 1}
   \<and> set (threshold_labels [(9/10, 1/10), (1/5, 4/5), (7/10, 3/10), (2/5, 3/5)] (1/2)) = {0, 1}
   \<and> (\<exists>roc_auc. calculate_metrics [0, 1, 1, 0]
          [(9/10, 1/10), (1/5, 4/5), (7/10, 3/10), (2/5, 3/5)] (1/2)
        = Inr (1/2, 1/2, 1/2, roc_auc))
   \<and> calculate_metrics_labels [0, 1, 1, 0] [0, 1, 0, 1]
        = Inr (Finite (1/2), Finite (1/2), Finite (1/2))"
  using metrics_formulas [of "[0, 1, 1, 0]" "[(9/10, 1/10), (1/5, 4/5), (7/10, 3/10), (2/5, 3/5)]"
      "[0, 1, 0, 1]" "1/2" 1 1 1 1]
  by (simp add: threshold_labels_def cell_def insert_commute float32_half)

text \<open>
  Claim C1 asks that a fold whose true labels are all negative yields sensitivity 0.
  The guard \<open>tp + fn > 0\<close> is there for it, but the function does not get that
  far: when no sample is predicted positive either, a single label occurs, the
  confusion matrix is 1x1 and the four-way unpacking raises \<^verbatim>\<open>ValueError\<close>. The
  function evaluated at such a fold:
\<close>

theorem all_negative_fold_raises:
  "calculate_metrics [0, 0, 0] [(9/10, 1/10), (4/5, 1/5), (7/10, 3/10)] (1/2)
   = Inl (ValueError ''not enough values to unpack (expected 4, got 1)'')"
  by (simp add: calculate_metrics_def y_pred_eq confusion_matrix_def unique_labels_def
        ravel_def unpack_error_def threshold_labels_def float32_half)

text \<open>
  Claim C10. The result of \<open>calculate_metrics\<close> depends only on the true labels, the
  threshold and the second (positive-class) column of the probability matrix: two
  matrices with the same second column give the same result, whatever their first
  columns are.
\<close>

theorem metrics_ignore_first_column:
  assumes "map snd y_pred_prob = map snd y_pred_prob'"
  shows "calculate_metrics y_true y_pred_prob threshold
         = calculate_metrics y_true y_pred_prob' threshold"
proof -
  have "column_1 y_pred_prob = column_1 y_pred_prob'"
    using assms by (simp add: column_1_def)
  then show ?thesis
    unfolding calculate_metrics_def by (simp only:)
qed

theorem metrics_ignore_first_column_witness:
  "map snd [(9/10 :: rat, 1/10 :: rat), (1/5, 4/5)] = map snd [(0 :: rat, 1/10 :: rat), (7, 4/5)]
   \<and> calculate_metrics [0, 1] [(9/10, 1/10), (1/5, 4/5)] (1/2)
     = calculate_metrics [0, 1] [(0, 1/10), (7, 4/5)] (1/2)
   \<and> calculate_metrics [0, 1] [(0, 1/10), (7, 4/5)] (1/2) = Inr (1, 1, 1, Finite 1)"
proof -
  have "calculate_metrics [0, 1] [(0, 1/10), (7, 4/5)] (1/2) = Inr (1, 1, 1, Finite 1)"
    by (simp add: metrics_eval)
  then show ?thesis
    using metrics_ignore_first_column [of "[(9/10, 1/10), (1/5, 4/5)]" "[(0, 1/10), (7, 4/5)]" "[0, 1]" "1/2"]
    by simp
qed

text \<open>
  Claim C8. The predicted labels that \<open>calculate_metrics\<close> builds the confusion
  matrix from are obtained by comparing each sample's positive-class probability with
  the threshold, and a call without a threshold compares with 0.5. For labels and
  probabilities of equal length with both true classes present, the function returns,
  and what it returns are the metrics of these counts: \<open>tp\<close> the truly positive
  samples whose positive-class probability exceeds the threshold, \<open>fn\<close> the truly
  positive ones whose probability does not, and likewise \<open>fp\<close> and \<open>tn\<close>. The
  threshold enters the comparison in the array's single precision, which leaves 0.5
  as it is.
\<close>

theorem threshold_binarization:
  assumes len: "length y_true = length y_pred_prob"
    and classes: "set y_true = {0, 1}"
    and tp: "tp = count_samples y_true y_pred_prob (\<lambda>y q. y = 1 \<and> float32 threshold < snd q)"
    and fn: "fn = count_samples y_true y_pred_prob (\<lambda>y q. y = 1 \<and> \<not> float32 threshold < snd q)"
    and fp: "fp = count_samples y_true y_pred_prob (\<lambda>y q. y = 0 \<and> float32 threshold < snd q)"
    and tn: "tn = count_samples y_true y_pred_prob (\<lambda>y q. y = 0 \<and> \<not> float32 threshold < snd q)"
  shows "(\<exists>roc_auc. roc_auc_score y_true (map snd y_pred_prob) = Inr roc_auc
            \<and> calculate_metrics y_true y_pred_prob threshold =
                Inr (of_nat (tp + tn) / of_nat (tp + tn + fp + fn),
                     of_nat tp / of_nat (tp + fn),
                     of_nat tn / of_nat (tn + fp), roc_auc))
         \<and> calculate_metrics_default y_true y_pred_prob
             = calculate_metrics y_true y_pred_prob (1 / 2)
         \<and> float32 (1 / 2) = 1 / 2"
proof -
  let ?p = "threshold_labels y_pred_prob threshold"
  have l: "length y_true = length ?p" using len by (simp add: threshold_labels_def)
  have sub: "set y_true \<subseteq> {0, 1}" "set ?p \<subseteq> {0, 1}"
    using classes by (auto simp: threshold_labels_def)
  have un: "set y_true \<union> set ?p = {0, 1}" using classes sub(2) by auto
  have cells: "cell y_true ?p 1 1 = tp" "cell y_true ?p 1 0 = fn"
    "cell y_true ?p 0 1 = fp" "cell y_true ?p 0 0 = tn"
    using len unfolding tp fn fp tn cell_def count_samples_def threshold_labels_def
    by (induction y_true y_pred_prob rule: list_induct2; simp)+
  have pos: "0 < tp + fn"
    using row_sum[OF l sub(2), of 1] count_list_pos[of 1 y_true] classes cells by auto
  have neg: "0 < tn + fp"
    using row_sum[OF l sub(2), of 0] count_list_pos[of 0 y_true] classes cells by auto
  have total: "length y_true = tp + tn + fp + fn"
    using total_binary[OF sub l] cells by simp
  have matches: "length (filter (\<lambda>(t, p). t = p) (zip y_true ?p)) = tp + tn"
    using matches_binary[OF sub l] cells by simp
  obtain r where r: "roc_auc_score y_true (column_1 y_pred_prob) = Inr r"
    using roc_auc_score_binary[of y_true "column_1 y_pred_prob"] len classes
    by (auto simp: column_1_def)
  have "calculate_metrics y_true y_pred_prob threshold =
            Inr (of_nat (tp + tn) / of_nat (tp + tn + fp + fn),
                 of_nat tp / of_nat (tp + fn),
                 of_nat tn / of_nat (tn + fp), r)"
    using calculate_metrics_two_classes[OF len un r] pos neg
    unfolding matches total cells by (simp add: add.commute)
  moreover have "roc_auc_score y_true (map snd y_pred_prob) = Inr r"
    using r by (simp add: column_1_def)
  ultimately show ?thesis
    by (auto simp: calculate_metrics_default_def float32_half)
qed

theorem threshold_binarization_witness:
  "length [0, 1, 1, 0 :: int]
     = length ([(9/10, 1/10), (1/5, 4/5), (7/10, 3/10), (2/5, 3/5)] :: prob_matrix)
   \<and> set [0, 1, 1, 0 :: int] = {0, 1}
   \<and> count_samples [0, 1, 1, 0] [(9/10, 1/10), (1/5, 4/5), (7/10, 3/10), (2/5, 3/5)]
        (\<lambda>y q. y = 1 \<and> float32 (1/2) < snd q) = 1
   \<and> count_samples [0, 1, 1, 0] [(9/10, 1/10), (1/5, 4/5), (7/10, 3/10), (2/5, 3/5)]
        (\<lambda>y q. y = 1 \<and> \<not> float32 (1/2) < snd q) = 1
   \<and> count_samples [0, 1, 1, 0] [(9/10, 1/10), (1/5, 4/5), (7/10, 3/10), (2/5, 3/5)]
        (\<lambda>y q. y = 0 \<and> float32 (1/2) < snd q) = 1
   \<and> count_samples [0, 1, 1, 0] [(9/10, 1/10), (1/5, 4/5), (7/10, 3/10), (2/5, 3/5)]
        (\<lambda>y q. y = 0 \<and> \<not> float32 (1/2) < snd q) = 1
   \<and> (\<exists>roc_auc. calculate_metrics [0, 1, 1, 0]
          [(9/10, 1/10), (1/5, 4/5), (7/10, 3/10), (2/5, 3/5)] (1/2)
        = Inr (1/2, 1/2, 1/2, roc_auc))
   \<and> calculate_metrics_default [0, 1, 1, 0]
          [(9/10, 1/10), (1/5, 4/5), (7/10, 3/10), (2/5, 3/5)]
        = calculate_metrics [0, 1, 1, 0]
          [(9/10, 1/10), (1/5, 4/5), (7/10, 3/10), (2/5, 3/5)] (1/2)"
proof -
  have c: "count_samples [0, 1, 1, 0] [(9/10, 1/10), (1/5, 4/5), (7/10, 3/10), (2/5, 3/5)]
        (\<lambda>y q. y = 1 \<and> float32 (1/2) < snd q) = 1"
    "count_samples [0, 1, 1, 0] [(9/10, 1/10), (1/5, 4/5), (7/10, 3/10), (2/5, 3/5)]
        (\<lambda>y q. y = 1 \<and> \<not> float32 (1/2) < snd q) = 1"
    "count_samples [0, 1, 1, 0] [(9/10, 1/10), (1/5, 4/5), (7/10, 3/10), (2/5, 3/5)]
        (\<lambda>y q. y = 0 \<and> float32 (1/2) < snd q) = 1"
    "count_samples [0, 1, 1, 0] [(9/10, 1/10), (1/5, 4/5), (7/10, 3/10), (2/5, 3/5)]
        (\<lambda>y q. y = 0 \<and> \<not> float32 (1/2) < snd q) = 1"
    by (simp_all add: count_samples_def float32_half)
  have s: "set [0, 1, 1, 0 :: int] = {0, 1}" by auto
  show ?thesis
    using threshold_binarization [of "[0, 1, 1, 0]"
        "[(9/10, 1/10), (1/5, 4/5), (7/10, 3/10), (2/5, 3/5)]" 1 "1/2" 1 1 1,
        OF _ s c(1)[symmetric] c(2)[symmetric] c(3)[symmetric] c(4)[symmetric]]
      c s
    by auto
qed

text \<open>
  Claim C9. A sample whose positive-class probability equals the threshold is
  predicted negative, since the comparison is strict. For labels and probabilities of
  equal length with both true classes present, and sample \<open>i\<close> at the threshold,
  \<open>calculate_metrics\<close> returns the metrics of the confusion matrix in which sample
  \<open>i\<close> has predicted label 0 and every other sample the label that the comparison
  gives it. The probability, coming from the array, is a single-precision number.
\<close>

theorem threshold_tie_is_negative:
  assumes len: "length y_true = length y_pred_prob"
    and classes: "set y_true = {0, 1}"
    and i: "i < length y_pred_prob"
    and tie: "snd (y_pred_prob ! i) = threshold"
    and single: "is_float32 (snd (y_pred_prob ! i))"
    and pred: "y_pred = (threshold_labels y_pred_prob threshold)[i := 0]"
    and tn: "tn = cell y_true y_pred 0 0" and fp: "fp = cell y_true y_pred 0 1"
    and fn: "fn = cell y_true y_pred 1 0" and tp: "tp = cell y_true y_pred 1 1"
  shows "y_pred ! i = 0
       \<and> (\<exists>roc_auc. calculate_metrics y_true y_pred_prob threshold =
            Inr (of_nat (tp + tn) / of_nat (tp + tn + fp + fn),
                 of_nat tp / of_nat (tp + fn),
                 of_nat tn / of_nat (tn + fp), roc_auc))"
proof -
  let ?p = "threshold_labels y_pred_prob threshold"
  have f: "float32 threshold = threshold"
    using single tie by (simp add: is_float32_def)
  have pi: "?p ! i = 0" using i tie f by (simp add: threshold_labels_def)
  have li: "i < length ?p" using i by (simp add: threshold_labels_def)
  have same: "y_pred = ?p" unfolding pred using pi li by (metis list_update_id)
  have l: "length y_true = length ?p" using len by (simp add: threshold_labels_def)
  have sub: "set y_true \<subseteq> {0, 1}" "set ?p \<subseteq> {0, 1}"
    using classes by (auto simp: threshold_labels_def)
  have un: "set y_true \<union> set ?p = {0, 1}" using classes sub(2) by auto
  have cells: "cell y_true ?p 1 1 = tp" "cell y_true ?p 1 0 = fn"
    "cell y_true ?p 0 1 = fp" "cell y_true ?p 0 0 = tn"
    using same tn fp fn tp by simp_all
  have pos: "0 < tp + fn"
    using row_sum[OF l sub(2), of 1] count_list_pos[of 1 y_true] classes cells by auto
  have neg: "0 < tn + fp"
    using row_sum[OF l sub(2), of 0] count_list_pos[of 0 y_true] classes cells by auto
  have total: "length y_true = tp + tn + fp + fn"
    using total_binary[OF sub l] cells by simp
  have matches: "length (filter (\<lambda>(t, p). t = p) (zip y_true ?p)) = tp + tn"
    using matches_binary[OF sub l] cells by simp
  obtain r where r: "roc_auc_score y_true (column_1 y_pred_prob) = Inr r"
    using roc_auc_score_binary[of y_true "column_1 y_pred_prob"] len classes
    by (auto simp: column_1_def)
  have "calculate_metrics y_true y_pred_prob threshold =
            Inr (of_nat (tp + tn) / of_nat (tp + tn + fp + fn),
                 of_nat tp / of_nat (tp + fn),
                 of_nat tn / of_nat (tn + fp), r)"
    using calculate_metrics_two_classes[OF len un r] pos neg
    unfolding matches total cells by (simp add: add.commute)
  moreover have "y_pred ! i = 0" using same pi by simp
  ultimately show ?thesis by blast
qed

theorem threshold_tie_is_negative_witness:
  "length [0, 1, 1, 0 :: int]
     = length ([(9/10, 1/10), (1/2, 1/2), (1/5, 4/5), (1/2, 1/2)] :: prob_matrix)
   \<and> set [0, 1, 1, 0 :: int] = {0, 1}
   \<and> (1::nat) < length ([(9/10, 1/10), (1/2, 1/2), (1/5, 4/5), (1/2, 1/2)] :: prob_matrix)
   \<and> snd (([(9/10, 1/10), (1/2, 1/2), (1/5, 4/5), (1/2, 1/2)] :: prob_matrix) ! 1) = 1/2
   \<and> is_float32 (snd (([(9/10, 1/10), (1/2, 1/2), (1/5, 4/5), (1/2, 1/2)] :: prob_matrix) ! 1))
   \<and> (threshold_labels [(9/10, 1/10), (1/2, 1/2), (1/5, 4/5), (1/2, 1/2)] (1/2))[1 := 0]
       = [0, 0, 1, 0]
   \<and> cell [0, 1, 1, 0] [0, 0, 1, 0] 0 0 = 2 \<and> cell [0, 1, 1, 0] [0, 0, 1, 0] 0 1 = 0
   \<and> cell [0, 1, 1, 0] [0, 0, 1, 0] 1 0 = 1 \<and> cell [0, 1, 1, 0] [0, 0, 1, 0] 1 1 = 1
   \<and> [0, 0, 1, 0 :: int] ! 1 = 0
   \<and> (\<exists>roc_auc. calculate_metrics [0, 1, 1, 0]
          [(9/10, 1/10), (1/2, 1/2), (1/5, 4/5), (1/2, 1/2)] (1/2)
        = Inr (3/4, 1/2, 1, roc_auc))"
proof -
  have s: "set [0, 1, 1, 0 :: int] = {0, 1}" by auto
  have f: "is_float32 (snd (([(9/10, 1/10), (1/2, 1/2), (1/5, 4/5), (1/2, 1/2)] :: prob_matrix) ! 1))"
    by (simp add: is_float32_def float32_half)
  have p: "[0, 0, 1, 0] = (threshold_labels [(9/10, 1/10), (1/2, 1/2), (1/5, 4/5), (1/2, 1/2)] (1/2))[1 := 0]"
    by (simp add: threshold_labels_def float32_half)
  have c: "2 = cell [0, 1, 1, 0] [0, 0, 1, 0] 0 0" "0 = cell [0, 1, 1, 0] [0, 0, 1, 0] 0 1"
    "1 = cell [0, 1, 1, 0] [0, 0, 1, 0] 1 0" "1 = cell [0, 1, 1, 0] [0, 0, 1, 0] 1 1"
    by (simp_all add: cell_def)
  show ?thesis
    using threshold_tie_is_negative [of "[0, 1, 1, 0]"
        "[(9/10, 1/10), (1/2, 1/2), (1/5, 4/5), (1/2, 1/2)]" 1 "1/2" "[0, 0, 1, 0]" 2 0 1 1,
        OF _ s _ _ f p c]
      s f p[symmetric] c[symmetric]
    by simp
qed

text \<open>
  Claim C3 says that each metric of a model's summary is the arithmetic mean of that
  metric over the model's k fold records. It fails for the area under the curve when
  a test fold holds a single class: that fold's value is NaN, and the column mean
  skips it. With one positive sample among six and two folds, the second fold's value
  is NaN, the arithmetic mean of the two values is NaN, and the summary reports the
  first fold's value alone:
\<close>

theorem summary_skips_undefined_auc:
  "evaluate_fold demo_library demo_images scarce_labels ''bfnet'' 0 ([3, 4, 5], [0, 1, 2])
     = Inr (2 / 3, 1, 1 / 2, Finite (3 / 4))
   \<and> evaluate_fold demo_library demo_images scarce_labels ''bfnet'' 1 ([0, 1, 2], [3, 4, 5])
     = Inr (2 / 3, 0, 2 / 3, NaN)
   \<and> arithmetic_mean [Finite (3 / 4), NaN] = NaN
   \<and> fst (federated_kfold_cross_validation demo_library demo_images scarce_labels
            [''bfnet''] 2 initial_state)
     = Inr [(''bfnet'',
             [(''fold'', Finite (3 / 2)), (''accuracy'', Finite (2 / 3)),
              (''sensitivity'', Finite (1 / 2)), (''specificity'', Finite (7 / 12)),
              (''roc_auc'', Finite (3 / 4))])]"
  by (simp add: demo_eval arithmetic_mean_def federated_kfold_cross_validation_def
      StratifiedKFold_init_def initial_state_def fold_body_def DataFrame_mean_def
      column_values_def Series_mean_def finite_values_def)

text \<open>
  Claim C3 as amended. When every (model, fold) evaluation of a run over at least one
  fold succeeds, the run returns one row per model, and in a model's row accuracy,
  sensitivity and specificity are the arithmetic means of the model's fold records;
  the area under the curve is the mean of the values that are defined (NaN if none
  is), which is the arithmetic mean over all fold records when none of them is NaN.
\<close>

theorem model_summary_means:
  assumes k: "2 \<le> k"
    and split: "skf_split lib \<lparr>n_splits = k, shuffle = True, random_state = 42\<rparr> images labels
                = Inr folds"
    and folds: "folds \<noteq> []"
    and evals: "\<forall>j<length models. \<forall>i<length folds.
             evaluate_fold lib images labels (models ! j)
               (instances st + j * length folds + i) (folds ! i) = Inr (ms j i)"
    and j: "j < length models"
  shows "\<exists>results st'.
           federated_kfold_cross_validation lib images labels models k st = (Inr results, st')
         \<and> length results = length models
         \<and> results ! j =
             (models ! j,
              [(''fold'', Finite (mean (map (\<lambda>i. of_nat (i + 1)) [0..<length folds]))),
               (''accuracy'', Finite (mean (map (\<lambda>i. accuracy_of (ms j i)) [0..<length folds]))),
               (''sensitivity'',
                  Finite (mean (map (\<lambda>i. sensitivity_of (ms j i)) [0..<length folds]))),
               (''specificity'',
                  Finite (mean (map (\<lambda>i. specificity_of (ms j i)) [0..<length folds]))),
               (''roc_auc'', defined_mean (map (\<lambda>i. roc_auc_of (ms j i)) [0..<length folds]))])
         \<and> ((\<forall>i<length folds. roc_auc_of (ms j i) \<noteq> NaN) \<longrightarrow>
              defined_mean (map (\<lambda>i. roc_auc_of (ms j i)) [0..<length folds])
              = arithmetic_mean (map (\<lambda>i. roc_auc_of (ms j i)) [0..<length folds]))"
proof -
  let ?L = "length folds"
  let ?aucs = "map (\<lambda>i. roc_auc_of (ms j i)) [0..<?L]"
  have L: "0 < ?L" using folds by simp
  from harness_run[OF k split evals] obtain calls where
    run: "federated_kfold_cross_validation lib images labels models k st =
            (Inr (map (\<lambda>j. (models ! j,
                     DataFrame_mean (map (\<lambda>i. fold_record i (ms j i)) [0..<?L])))
                   [0..<length models]),
             st\<lparr>instances := instances st + length models * ?L,
                fit_calls := fit_calls st @ calls\<rparr>)"
    by blast
  have noinf: "Infinity \<notin> set ?aucs"
  proof
    assume "Infinity \<in> set ?aucs"
    then obtain i where "i < ?L" "roc_auc_of (ms j i) = Infinity" by auto
    then show False using evals j evaluate_fold_not_infinite by metis
  qed
  have row: "DataFrame_mean (map (\<lambda>i. fold_record i (ms j i)) [0..<?L]) =
              [(''fold'', Finite (mean (map (\<lambda>i. of_nat (i + 1)) [0..<?L]))),
               (''accuracy'', Finite (mean (map (\<lambda>i. accuracy_of (ms j i)) [0..<?L]))),
               (''sensitivity'', Finite (mean (map (\<lambda>i. sensitivity_of (ms j i)) [0..<?L]))),
               (''specificity'', Finite (mean (map (\<lambda>i. specificity_of (ms j i)) [0..<?L]))),
               (''roc_auc'', defined_mean ?aucs)]"
    unfolding DataFrame_mean_fold_records[OF L] Series_mean_defined[OF noinf] by simp
  have all: "defined_mean ?aucs = arithmetic_mean ?aucs"
    if "\<forall>i<?L. roc_auc_of (ms j i) \<noteq> NaN"
  proof -
    have "NaN \<notin> set ?aucs" using that by auto
    moreover have "?aucs \<noteq> []" using L by simp
    ultimately show ?thesis using noinf by (intro defined_mean_arithmetic)
  qed
  show ?thesis
    unfolding run using j row all by simp
qed

theorem model_summary_means_witness:
  "(2::int) \<le> 2
   \<and> skf_split demo_library \<lparr>n_splits = 2, shuffle = True, random_state = 42\<rparr>
        demo_images demo_labels = Inr demo_folds
   \<and> demo_folds \<noteq> []
   \<and> (1::nat) < length [''resnet'', ''bfnet'']
   \<and> evaluate_fold demo_library demo_images demo_labels ''bfnet'' 0 ([3, 4, 5], [0, 1, 2])
       = Inr (2 / 3, 1, 1 / 2, Finite (3 / 4))
   \<and> evaluate_fold demo_library demo_images demo_labels ''bfnet'' 0 ([0, 1, 2], [3, 4, 5])
       = Inr (2 / 3, 1 / 2, 1, Finite (3 / 4))
   \<and> (\<exists>results st'.
         federated_kfold_cross_validation demo_library demo_images demo_labels
           [''resnet'', ''bfnet''] 2 initial_state = (Inr results, st')
       \<and> length results = 2
       \<and> results ! 1 =
           (''bfnet'',
            [(''fold'', Finite (3 / 2)), (''accuracy'', Finite (2 / 3)),
             (''sensitivity'', Finite (3 / 4)), (''specificity'', Finite (3 / 4)),
             (''roc_auc'', Finite (3 / 4))]))"
proof -
  have ne: "demo_folds \<noteq> []" by (simp add: demo_folds_def)
  have j: "(1::nat) < length [''resnet'', ''bfnet'']" by simp
  have up: "[0..<length demo_folds] = [0, 1]" by (simp add: demo_folds_def upt_rec)
  have ev: "\<forall>j<length [''resnet'', ''bfnet'']. \<forall>i<length demo_folds.
     evaluate_fold demo_library demo_images demo_labels ([''resnet'', ''bfnet''] ! j)
       (instances initial_state + j * length demo_folds + i) (demo_folds ! i)
     = Inr (demo_metrics j i)"
    by (rule demo_evals) simp
  from model_summary_means [OF _ demo_split ne ev j]
  obtain results st' where
    "federated_kfold_cross_validation demo_library demo_images demo_labels
           [''resnet'', ''bfnet''] 2 initial_state = (Inr results, st')"
    "length results = length [''resnet'', ''bfnet'']"
    "results ! 1 =
             ([''resnet'', ''bfnet''] ! 1,
              [(''fold'', Finite (mean (map (\<lambda>i. of_nat (i + 1)) [0..<length demo_folds]))),
               (''accuracy'', Finite (mean (map (\<lambda>i. accuracy_of (demo_metrics 1 i)) [0..<length demo_folds]))),
               (''sensitivity'',
                  Finite (mean (map (\<lambda>i. sensitivity_of (demo_metrics 1 i)) [0..<length demo_folds]))),
               (''specificity'',
                  Finite (mean (map (\<lambda>i. specificity_of (demo_metrics 1 i)) [0..<length demo_folds]))),
               (''roc_auc'', defined_mean (map (\<lambda>i. roc_auc_of (demo_metrics 1 i)) [0..<length demo_folds]))])"
    by auto
  then have "\<exists>results st'.
         federated_kfold_cross_validation demo_library demo_images demo_labels
           [''resnet'', ''bfnet''] 2 initial_state = (Inr results, st')
       \<and> length results = 2
       \<and> results ! 1 =
           (''bfnet'',
            [(''fold'', Finite (3 / 2)), (''accuracy'', Finite (2 / 3)),
             (''sensitivity'', Finite (3 / 4)), (''specificity'', Finite (3 / 4)),
             (''roc_auc'', Finite (3 / 4))])"
    unfolding up
    by (simp add: mean_def demo_metrics_def accuracy_of_def sensitivity_of_def
        specificity_of_def roc_auc_of_def defined_mean_def finite_values_def)
  then show ?thesis
    using demo_split ne demo_evaluate_fold(3,4) by simp
qed

text \<open>
  Claim C4. The fold partition is a function of the splitter (whose seed is fixed at
  42), the number of folds and the data, and the harness hands the same splitter and
  the same data to every call of \<^verbatim>\<open>split\<close>. So two runs on the same data with the
  same number of folds train on the same partitions, whatever their model lists,
  trainers and starting states, and within a run every model is trained on the same
  (train, test) splits in the same order: the trainer calls of a run name the
  splitter's folds, repeated once per model.
\<close>

theorem identical_fold_partitions:
  assumes k: "2 \<le> k"
    and split: "skf_split lib \<lparr>n_splits = k, shuffle = True, random_state = 42\<rparr> images labels
                = Inr folds"
    and same: "skf_split lib' = skf_split lib"
    and evals: "\<forall>j<length models. \<forall>i<length folds.
             evaluate_fold lib images labels (models ! j)
               (instances st + j * length folds + i) (folds ! i) = Inr (ms j i)"
    and evals': "\<forall>j<length models'. \<forall>i<length folds.
             evaluate_fold lib' images labels (models' ! j)
               (instances st' + j * length folds + i) (folds ! i) = Inr (ms' j i)"
  shows "\<exists>results st1 results' st1'.
           federated_kfold_cross_validation lib images labels models k st = (Inr results, st1)
         \<and> federated_kfold_cross_validation lib' images labels models' k st' = (Inr results', st1')
         \<and> map (\<lambda>c. (call_fold c, call_train c, call_test c))
               (drop (length (fit_calls st)) (fit_calls st1))
             = concat (replicate (length models)
                 (map (\<lambda>i. (i + 1, folds ! i)) [0..<length folds]))
         \<and> map (\<lambda>c. (call_fold c, call_train c, call_test c))
               (drop (length (fit_calls st')) (fit_calls st1'))
             = concat (replicate (length models')
                 (map (\<lambda>i. (i + 1, folds ! i)) [0..<length folds]))"
proof -
  have split': "skf_split lib' \<lparr>n_splits = k, shuffle = True, random_state = 42\<rparr> images labels
                = Inr folds"
    using split same by simp
  from harness_run[OF k split evals] obtain calls where
    run: "federated_kfold_cross_validation lib images labels models k st =
            (Inr (map (\<lambda>j. (models ! j,
                     DataFrame_mean (map (\<lambda>i. fold_record i (ms j i)) [0..<length folds])))
                   [0..<length models]),
             st\<lparr>instances := instances st + length models * length folds,
                fit_calls := fit_calls st @ calls\<rparr>)"
    and len: "length calls = length models * length folds"
    and cs: "\<forall>j<length models. \<forall>i<length folds. \<exists>model.
                fresh_model lib (models ! j) (instances st + j * length folds + i) = Inr model
                \<and> calls ! (j * length folds + i) = fold_call (models ! j) i model (folds ! i)"
    by blast
  from harness_run[OF k split' evals'] obtain calls' where
    run': "federated_kfold_cross_validation lib' images labels models' k st' =
            (Inr (map (\<lambda>j. (models' ! j,
                     DataFrame_mean (map (\<lambda>i. fold_record i (ms' j i)) [0..<length folds])))
                   [0..<length models']),
             st'\<lparr>instances := instances st' + length models' * length folds,
                fit_calls := fit_calls st' @ calls'\<rparr>)"
    and len': "length calls' = length models' * length folds"
    and cs': "\<forall>j<length models'. \<forall>i<length folds. \<exists>model.
                fresh_model lib' (models' ! j) (instances st' + j * length folds + i) = Inr model
                \<and> calls' ! (j * length folds + i) = fold_call (models' ! j) i model (folds ! i)"
    by blast
  show ?thesis
    unfolding run run' using calls_splits[OF len cs] calls_splits[OF len' cs'] by simp
qed

theorem identical_fold_partitions_witness:
  "(2::int) \<le> 2
   \<and> skf_split demo_library \<lparr>n_splits = 2, shuffle = True, random_state = 42\<rparr>
        demo_images demo_labels = Inr demo_folds
   \<and> evaluate_fold demo_library demo_images demo_labels ''resnet'' 0 ([3, 4, 5], [0, 1, 2])
       = Inr (2 / 3, 1, 1 / 2, Finite (3 / 4))
   \<and> evaluate_fold demo_library demo_images demo_labels ''bfnet'' 0 ([0, 1, 2], [3, 4, 5])
       = Inr (2 / 3, 1 / 2, 1, Finite (3 / 4))
   \<and> (\<exists>results st1 results' st1'.
         federated_kfold_cross_validation demo_library demo_images demo_labels
           [''resnet'', ''bfnet''] 2 initial_state = (Inr results, st1)
       \<and> federated_kfold_cross_validation demo_library demo_images demo_labels
           [''bfnet''] 2 \<lparr>instances = 7, fit_calls = []\<rparr> = (Inr results', st1')
       \<and> map (\<lambda>c. (call_fold c, call_train c, call_test c))
             (drop (length (fit_calls initial_state)) (fit_calls st1))
           = [(1, [3, 4, 5], [0, 1, 2]), (2, [0, 1, 2], [3, 4, 5]),
              (1, [3, 4, 5], [0, 1, 2]), (2, [0, 1, 2], [3, 4, 5])]
       \<and> map (\<lambda>c. (call_fold c, call_train c, call_test c))
             (drop (length (fit_calls \<lparr>instances = 7, fit_calls = []\<rparr>)) (fit_calls st1'))
           = [(1, [3, 4, 5], [0, 1, 2]), (2, [0, 1, 2], [3, 4, 5])])"
proof -
  have ev: "\<forall>j<length [''resnet'', ''bfnet'']. \<forall>i<length demo_folds.
     evaluate_fold demo_library demo_images demo_labels ([''resnet'', ''bfnet''] ! j)
       (instances initial_state + j * length demo_folds + i) (demo_folds ! i)
     = Inr (demo_metrics j i)"
    by (rule demo_evals) simp
  have ev': "\<forall>j<length [''bfnet'']. \<forall>i<length demo_folds.
     evaluate_fold demo_library demo_images demo_labels ([''bfnet''] ! j)
       (instances \<lparr>instances = 7, fit_calls = []\<rparr> + j * length demo_folds + i) (demo_folds ! i)
     = Inr (demo_metrics j i)"
    by (rule demo_evals) simp
  have r: "concat (replicate (length [''resnet'', ''bfnet''])
                 (map (\<lambda>i. (i + 1, demo_folds ! i)) [0..<length demo_folds]))
           = [(1, [3, 4, 5], [0, 1, 2]), (2, [0, 1, 2], [3, 4, 5]),
              (1, [3, 4, 5], [0, 1, 2]), (2, [0, 1, 2], [3, 4, 5])]"
    "concat (replicate (length [''bfnet''])
                 (map (\<lambda>i. (i + 1, demo_folds ! i)) [0..<length demo_folds]))
           = [(1, [3, 4, 5], [0, 1, 2]), (2, [0, 1, 2], [3, 4, 5])]"
    by (simp_all add: demo_folds_def upt_rec)
  show ?thesis
    using identical_fold_partitions [OF _ demo_split _ ev ev'] demo_split
      demo_evaluate_fold(1,4)
    unfolding r by simp
qed

text \<open>
  Claim C6 says that an unsupported model name raises before any training is
  attempted. The factory is called inside the loops, when the name's turn comes: the
  models listed before it have been trained on every fold by then. With the
  unsupported name second in the list, the run ends in the error after two trainer
  calls for the first model:
\<close>

theorem unsupported_model_after_training:
  "''vgg'' \<notin> set supported_models
   \<and> federated_kfold_cross_validation demo_library demo_images demo_labels
        [''resnet'', ''vgg'', ''bfnet''] 2 initial_state
     = (Inl (ValueError ''Unsupported model name.''),
        \<lparr>instances = 2,
         fit_calls =
           [\<lparr>call_model = ''resnet'', call_fold = 1, call_instance = 0, call_weights = 0,
             call_train = [3, 4, 5], call_test = [0, 1, 2]\<rparr>,
            \<lparr>call_model = ''resnet'', call_fold = 2, call_instance = 1, call_weights = 0,
             call_train = [0, 1, 2], call_test = [3, 4, 5]\<rparr>]\<rparr>)"
  by (simp add: supported_models_def demo_eval federated_kfold_cross_validation_def
      StratifiedKFold_init_def initial_state_def fold_body_def DataFrame_mean_def
      column_values_def Series_mean_def finite_values_def)

text \<open>
  Claim C6 as amended. Let the name at position \<open>j\<close> be unsupported, let the
  splitter return at least one fold whose first fold indexes the data in range, and
  let every evaluation of the models before position \<open>j\<close> succeed. Then the run
  raises the unsupported-model error and stops: exactly the folds of the models
  before position \<open>j\<close> have been trained, and no model has been built or trained for
  the unsupported name or any name after it. In particular a run whose first name is
  unsupported raises with the state unchanged.
\<close>

theorem unsupported_model_raises:
  assumes k: "2 \<le> k"
    and split: "skf_split lib \<lparr>n_splits = k, shuffle = True, random_state = 42\<rparr> images labels
                = Inr folds"
    and folds: "folds \<noteq> []"
    and range: "list_all (\<lambda>i. i < length images \<and> i < length labels)
                  (fst (hd folds) @ snd (hd folds))"
    and j: "j < length models"
    and bad: "models ! j \<notin> set supported_models"
    and evals: "\<forall>j'<j. \<forall>i<length folds.
             evaluate_fold lib images labels (models ! j')
               (instances st + j' * length folds + i) (folds ! i) = Inr (ms j' i)"
  shows "\<exists>calls.
           federated_kfold_cross_validation lib images labels models k st =
             (Inl (ValueError ''Unsupported model name.''),
              st\<lparr>instances := instances st + j * length folds,
                 fit_calls := fit_calls st @ calls\<rparr>)
         \<and> length calls = j * length folds
         \<and> (\<forall>j'<j. \<forall>i<length folds. \<exists>model.
               fresh_model lib (models ! j') (instances st + j' * length folds + i) = Inr model
               \<and> calls ! (j' * length folds + i) = fold_call (models ! j') i model (folds ! i))
         \<and> (j = 0 \<longrightarrow>
               federated_kfold_cross_validation lib images labels models k st =
                 (Inl (ValueError ''Unsupported model name.''), st))"
proof -
  let ?skf = "\<lparr>n_splits = k, shuffle = True, random_state = 42\<rparr>"
  let ?pre = "take j models"
  have models: "models = ?pre @ (models ! j # drop (Suc j) models)"
    using j by (simp add: id_take_nth_drop[symmetric])
  have lp: "length ?pre = j" using j by simp
  have ev: "\<forall>j'<length ?pre. \<forall>i<length folds.
             evaluate_fold lib images labels (?pre ! j')
               (instances st + j' * length folds + i) (folds ! i) = Inr (ms j' i)"
    using evals lp by simp
  from model_loop_run[OF split ev, of "[]"] obtain calls where
    pre: "model_loop lib ?skf images labels ?pre [] st =
            (Inr (map (\<lambda>j. (?pre ! j,
                     DataFrame_mean (map (\<lambda>i. fold_record i (ms j i)) [0..<length folds])))
                   [0..<length ?pre]),
             st\<lparr>instances := instances st + length ?pre * length folds,
                fit_calls := fit_calls st @ calls\<rparr>)"
    and len: "length calls = length ?pre * length folds"
    and cs: "\<forall>j'<length ?pre. \<forall>i<length folds. \<exists>model.
                fresh_model lib (?pre ! j') (instances st + j' * length folds + i) = Inr model
                \<and> calls ! (j' * length folds + i) = fold_call (?pre ! j') i model (folds ! i)"
    by auto
  have init: "StratifiedKFold_init k True 42 = Inr ?skf"
    using k by (simp add: StratifiedKFold_init_def)
  have un: "model_loop lib ?skf images labels (models ! j # drop (Suc j) models) rs s
            = (Inl (ValueError ''Unsupported model name.''), s)" for rs s
    by (rule model_loop_unsupported[OF split folds range bad])
  have "model_loop lib ?skf images labels (?pre @ (models ! j # drop (Suc j) models)) [] st =
          (Inl (ValueError ''Unsupported model name.''),
           st\<lparr>instances := instances st + j * length folds, fit_calls := fit_calls st @ calls\<rparr>)"
    unfolding model_loop_append pre un using j by simp
  then have "model_loop lib ?skf images labels models [] st =
          (Inl (ValueError ''Unsupported model name.''),
           st\<lparr>instances := instances st + j * length folds, fit_calls := fit_calls st @ calls\<rparr>)"
    by (subst models)
  then have run: "federated_kfold_cross_validation lib images labels models k st =
          (Inl (ValueError ''Unsupported model name.''),
           st\<lparr>instances := instances st + j * length folds, fit_calls := fit_calls st @ calls\<rparr>)"
    by (simp add: federated_kfold_cross_validation_def init)
  have l: "length calls = j * length folds" using len lp by simp
  have c: "\<forall>j'<j. \<forall>i<length folds. \<exists>model.
               fresh_model lib (models ! j') (instances st + j' * length folds + i) = Inr model
               \<and> calls ! (j' * length folds + i) = fold_call (models ! j') i model (folds ! i)"
    using cs lp by simp
  have z: "federated_kfold_cross_validation lib images labels models k st =
                 (Inl (ValueError ''Unsupported model name.''), st)" if "j = 0"
    using run l that by simp
  show ?thesis using run l c z by blast
qed

theorem unsupported_model_raises_witness:
  "(2::int) \<le> 2
   \<and> skf_split demo_library \<lparr>n_splits = 2, shuffle = True, random_state = 42\<rparr>
        demo_images demo_labels = Inr demo_folds
   \<and> demo_folds \<noteq> []
   \<and> list_all (\<lambda>i. i < length demo_images \<and> i < length demo_labels)
        (fst (hd demo_folds) @ snd (hd demo_folds))
   \<and> (1::nat) < length [''resnet'', ''vgg'', ''bfnet'']
   \<and> [''resnet'', ''vgg'', ''bfnet''] ! 1 \<notin> set supported_models
   \<and> evaluate_fold demo_library demo_images demo_labels ''resnet'' 0 ([3, 4, 5], [0, 1, 2])
       = Inr (2 / 3, 1, 1 / 2, Finite (3 / 4))
   \<and> evaluate_fold demo_library demo_images demo_labels ''resnet'' 0 ([0, 1, 2], [3, 4, 5])
       = Inr (2 / 3, 1 / 2, 1, Finite (3 / 4))
   \<and> (\<exists>calls.
         federated_kfold_cross_validation demo_library demo_images demo_labels
           [''resnet'', ''vgg'', ''bfnet''] 2 initial_state
         = (Inl (ValueError ''Unsupported model name.''),
            \<lparr>instances = 2, fit_calls = calls\<rparr>)
       \<and> length calls = 2)"
proof -
  have ne: "demo_folds \<noteq> []" by (simp add: demo_folds_def)
  have j: "(1::nat) < length [''resnet'', ''vgg'', ''bfnet'']" by simp
  have bad: "[''resnet'', ''vgg'', ''bfnet''] ! 1 \<notin> set supported_models"
    by (simp add: supported_models_def)
  have ev: "\<forall>j'<1. \<forall>i<length demo_folds.
     evaluate_fold demo_library demo_images demo_labels ([''resnet'', ''vgg'', ''bfnet''] ! j')
       (instances initial_state + j' * length demo_folds + i) (demo_folds ! i)
     = Inr (demo_metrics j' i)"
    using demo_evals[of "[''resnet'']" initial_state] by simp
  from unsupported_model_raises [OF _ demo_split ne demo_first_fold_in_range j bad ev]
  obtain calls where
    "federated_kfold_cross_validation demo_library demo_images demo_labels
           [''resnet'', ''vgg'', ''bfnet''] 2 initial_state
         = (Inl (ValueError ''Unsupported model name.''),
            initial_state\<lparr>instances := instances initial_state + 1 * length demo_folds,
                 fit_calls := fit_calls initial_state @ calls\<rparr>)"
    "length calls = 1 * length demo_folds"
    by auto
  then have "\<exists>calls.
         federated_kfold_cross_validation demo_library demo_images demo_labels
           [''resnet'', ''vgg'', ''bfnet''] 2 initial_state
         = (Inl (ValueError ''Unsupported model name.''),
            \<lparr>instances = 2, fit_calls = calls\<rparr>)
       \<and> length calls = 2"
    by (simp add: initial_state_def demo_folds_nth)
  then show ?thesis
    using demo_split ne demo_first_fold_in_range bad demo_evaluate_fold(1,2) by simp
qed

text \<open>
  Claim C7. For every (model, fold) pair the loop builds a new model through the
  factory and trains that one. In a run whose evaluations all succeed there is exactly
  one trainer call per pair, in order; the call for model \<open>j\<close> and fold \<open>i\<close> is made
  on the instance that the factory built for it, whose number no earlier instance
  has, and with the weights the factory gave it (the initial weights of its
  architecture: ImageNet weights for the ResNet, newly initialised ones otherwise),
  never with weights that a trainer call returned.
\<close>

theorem fresh_model_per_fold:
  assumes k: "2 \<le> k"
    and split: "skf_split lib \<lparr>n_splits = k, shuffle = True, random_state = 42\<rparr> images labels
                = Inr folds"
    and evals: "\<forall>j<length models. \<forall>i<length folds.
             evaluate_fold lib images labels (models ! j)
               (instances st + j * length folds + i) (folds ! i) = Inr (ms j i)"
  shows "\<exists>results st' calls.
           federated_kfold_cross_validation lib images labels models k st = (Inr results, st')
         \<and> instances st' = instances st + length models * length folds
         \<and> fit_calls st' = fit_calls st @ calls
         \<and> length calls = length models * length folds
         \<and> (\<forall>j<length models. \<forall>i<length folds. \<exists>model.
               fresh_model lib (models ! j) (instances st + j * length folds + i) = Inr model
               \<and> model_instance model = instances st + j * length folds + i
               \<and> model_weights model
                   = initial_weights lib (model_instance model) (model_architecture model)
                       (model_input_shape model)
               \<and> calls ! (j * length folds + i)
                   = \<lparr>call_model = models ! j, call_fold = i + 1,
                      call_instance = model_instance model,
                      call_weights = model_weights model,
                      call_train = fst (folds ! i), call_test = snd (folds ! i)\<rparr>)"
proof -
  from harness_run[OF k split evals] obtain calls where
    run: "federated_kfold_cross_validation lib images labels models k st =
            (Inr (map (\<lambda>j. (models ! j,
                     DataFrame_mean (map (\<lambda>i. fold_record i (ms j i)) [0..<length folds])))
                   [0..<length models]),
             st\<lparr>instances := instances st + length models * length folds,
                fit_calls := fit_calls st @ calls\<rparr>)"
    and len: "length calls = length models * length folds"
    and cs: "\<forall>j<length models. \<forall>i<length folds. \<exists>model.
                fresh_model lib (models ! j) (instances st + j * length folds + i) = Inr model
                \<and> calls ! (j * length folds + i) = fold_call (models ! j) i model (folds ! i)"
    by blast
  have each: "\<exists>model.
               fresh_model lib (models ! j) (instances st + j * length folds + i) = Inr model
               \<and> model_instance model = instances st + j * length folds + i
               \<and> model_weights model
                   = initial_weights lib (model_instance model) (model_architecture model)
                       (model_input_shape model)
               \<and> calls ! (j * length folds + i)
                   = \<lparr>call_model = models ! j, call_fold = i + 1,
                      call_instance = model_instance model,
                      call_weights = model_weights model,
                      call_train = fst (folds ! i), call_test = snd (folds ! i)\<rparr>"
    if "j < length models" "i < length folds" for j i
  proof -
    from cs that obtain model where
      m: "fresh_model lib (models ! j) (instances st + j * length folds + i) = Inr model"
         "calls ! (j * length folds + i) = fold_call (models ! j) i model (folds ! i)"
      by blast
    show ?thesis
      using m fresh_model_Inr(1,2)[OF m(1)] by (auto simp: fold_call_def)
  qed
  show ?thesis
    unfolding run using len each by simp
qed

theorem fresh_model_per_fold_witness:
  "(2::int) \<le> 2
   \<and> skf_split demo_library \<lparr>n_splits = 2, shuffle = True, random_state = 42\<rparr>
        demo_images demo_labels = Inr demo_folds
   \<and> evaluate_fold demo_library demo_images demo_labels ''resnet'' 0 ([3, 4, 5], [0, 1, 2])
       = Inr (2 / 3, 1, 1 / 2, Finite (3 / 4))
   \<and> evaluate_fold demo_library demo_images demo_labels ''bfnet'' 0 ([0, 1, 2], [3, 4, 5])
       = Inr (2 / 3, 1 / 2, 1, Finite (3 / 4))
   \<and> (\<exists>results st' calls.
         federated_kfold_cross_validation demo_library demo_images demo_labels
           [''resnet'', ''bfnet''] 2 initial_state = (Inr results, st')
       \<and> instances st' = 4
       \<and> fit_calls st' = calls
       \<and> length calls = 4)"
proof -
  have ev: "\<forall>j<length [''resnet'', ''bfnet'']. \<forall>i<length demo_folds.
     evaluate_fold demo_library demo_images demo_labels ([''resnet'', ''bfnet''] ! j)
       (instances initial_state + j * length demo_folds + i) (demo_folds ! i)
     = Inr (demo_metrics j i)"
    by (rule demo_evals) simp
  from fresh_model_per_fold [OF _ demo_split ev]
  obtain results st' calls where
    "federated_kfold_cross_validation demo_library demo_images demo_labels
           [''resnet'', ''bfnet''] 2 initial_state = (Inr results, st')"
    "instances st' = instances initial_state + length [''resnet'', ''bfnet''] * length demo_folds"
    "fit_calls st' = fit_calls initial_state @ calls"
    "length calls = length [''resnet'', ''bfnet''] * length demo_folds"
    by auto
  then have "\<exists>results st' calls.
         federated_kfold_cross_validation demo_library demo_images demo_labels
           [''resnet'', ''bfnet''] 2 initial_state = (Inr results, st')
       \<and> instances st' = 4
       \<and> fit_calls st' = calls
       \<and> length calls = 4"
    by (simp add: initial_state_def demo_folds_nth)
  then show ?thesis
    using demo_split demo_evaluate_fold(1,4) by simp
qed

end
